theory Spec2Isabelle
  imports Complex_Main "HOL-Library.Sublist"
begin

section \<open>Batch review processor: text-analysis.py\<close>

text \<open>
  The script has one function, \<open>main\<close> (lines 30 to 107), whose whole body is a
  \<open>try\<close> block with one handler, \<open>except Exception as ex: print(ex)\<close>. Everything
  it computes comes from outside: the environment, the file system and the remote
  text-analysis client. The embedding takes these collaborators as a record of functions
  (the world), makes every call that can raise return a sum (\<open>Inl\<close> the exception), and
  records what the run does as a list of events: a line written by \<open>print\<close>, tagged with
  the \<open>print\<close> statement that wrote it, or a remote call with its arguments.
\<close>

subsection \<open>Exceptions\<close>

text \<open>
  Python's exception classes, as far as \<open>except Exception\<close> tells them apart:
  \<open>Exception\<close> and its subclasses (the argument is the class name), and the classes that
  derive from \<open>BaseException\<close> directly. \<open>SystemExit\<close> carries its argument: none
  (\<open>sys.exit()\<close>), an integer, or another object. An exception value carries its class and
  the string that \<open>str(ex)\<close> returns.
\<close>

datatype exit_arg = ExitNone | ExitInt int | ExitObject string

datatype exn_class = Exception string | KeyboardInterrupt | SystemExit exit_arg | GeneratorExit

datatype exn = Exn exn_class string

fun isinstance_Exception :: "exn \<Rightarrow> bool" where
  "isinstance_Exception (Exn (Exception c) msg) = True"
| "isinstance_Exception (Exn KeyboardInterrupt msg) = False"
| "isinstance_Exception (Exn (SystemExit a) msg) = False"
| "isinstance_Exception (Exn GeneratorExit msg) = False"

fun str :: "exn \<Rightarrow> string" where
  "str (Exn c msg) = msg"

subsection \<open>Floating-point scores and the format \<open>:.2f\<close>\<close>

text \<open>
  A Python float is an IEEE double: a finite value \<open>(-1)^s * m * 2^e\<close> (sign bit,
  mantissa, exponent; the model does not bound \<open>m\<close> and \<open>e\<close>, so every finite double is
  covered, negative zero included), a NaN or an infinity. \<open>format(x, '.2f')\<close> writes a
  finite \<open>x\<close> as its exact value rounded to the nearest hundredth, ties to the even
  neighbour, with a minus sign when the sign bit is set; it writes \<open>nan\<close>, \<open>inf\<close> and
  \<open>-inf\<close> for the others.
\<close>

datatype pyfloat = Finite bool nat int | NaN | Inf bool

fun float_value :: "pyfloat \<Rightarrow> rat option" where
  "float_value (Finite s m e) =
     Some ((if s then - 1 else 1) *
           (if 0 \<le> e then of_nat m * 2 ^ nat e else of_nat m / 2 ^ nat (- e)))"
| "float_value NaN = None"
| "float_value (Inf s) = None"

definition in_unit_interval :: "pyfloat \<Rightarrow> bool" where
  "in_unit_interval x = (case float_value x of None \<Rightarrow> False | Some v \<Rightarrow> 0 \<le> v \<and> v \<le> 1)"

definition hundredths :: "nat \<Rightarrow> int \<Rightarrow> nat" where
  "hundredths m e =
     (if 0 \<le> e then m * 2 ^ nat e * 100
      else let num = m * 100; den = 2 ^ nat (- e); q = num div den; r = num mod den
           in if den < 2 * r \<or> (2 * r = den \<and> odd q) then q + 1 else q)"

definition digit :: "nat \<Rightarrow> char" where
  "digit d = ''0123456789'' ! d"

fun str_nat :: "nat \<Rightarrow> string" where
  "str_nat n = (if n < 10 then [digit n] else str_nat (n div 10) @ [digit (n mod 10)])"

declare str_nat.simps [simp del]

definition sign_str :: "bool \<Rightarrow> string" where
  "sign_str s = (if s then ''-'' else [])"

definition fixed2 :: "nat \<Rightarrow> string" where
  "fixed2 n = str_nat (n div 100) @ ''.'' @ [digit (n mod 100 div 10), digit (n mod 10)]"

fun format_2f :: "pyfloat \<Rightarrow> string" where
  "format_2f (Finite s m e) = sign_str s @ fixed2 (hundredths m e)"
| "format_2f NaN = ''nan''"
| "format_2f (Inf s) = sign_str s @ ''inf''"

text \<open>
  What "rendered with exactly two decimal digits" means for a string: an optional minus
  sign, one or more digits, a point, and exactly two digits, with nothing after them.
\<close>

definition is_digit :: "char \<Rightarrow> bool" where
  "is_digit c = (c \<in> set ''0123456789'')"

definition two_decimal_digits :: "string \<Rightarrow> bool" where
  "two_decimal_digits s =
     (let body = (case s of [] \<Rightarrow> [] | c # r \<Rightarrow> if c = CHR ''-'' then r else s);
          n = length body
      in 4 \<le> n \<and> list_all is_digit (take (n - 3) body) \<and> body ! (n - 3) = CHR ''.'' \<and>
         list_all is_digit (drop (n - 2) body))"

subsection \<open>Results of the remote service\<close>

text \<open>
  The shapes the script reads: \<open>primary_language.name\<close> and
  \<open>primary_language.iso6391_name\<close>; \<open>sentiment\<close> and the three
  \<open>confidence_scores\<close>; \<open>key_phrases\<close>; \<open>entities\<close> with \<open>text\<close> and \<open>category\<close>;
  \<open>entities\<close> with \<open>name\<close> and \<open>url\<close>. (Field names that would clash in one theory
  carry a prefix.) Every call returns a list with one element per submitted document; an
  element is a result or a document error, an object on which reading a result attribute
  raises \<open>AttributeError\<close>.
\<close>

record detected_language =
  name :: string
  iso6391_name :: string

record detect_language_result =
  primary_language :: detected_language

record sentiment_confidence_scores =
  positive :: pyfloat
  negative :: pyfloat
  neutral :: pyfloat

record analyze_sentiment_result =
  sentiment :: string
  confidence_scores :: sentiment_confidence_scores

record extract_key_phrases_result =
  key_phrases :: "string list"

record categorized_entity =
  entity_text :: string
  category :: string

record recognize_entities_result =
  entities :: "categorized_entity list"

record linked_entity =
  linked_name :: string
  url :: string

record recognize_linked_entities_result =
  linked_entities :: "linked_entity list"

datatype 'a doc = Result 'a | DocumentError string

subsection \<open>The world outside the script\<close>

text \<open>
  One field for each call the script makes on a collaborator. \<open>open_read\<close> is
  \<open>open(path, encoding='utf8').read()\<close>. \<open>stdout_write\<close> is what standard output does
  with a string that \<open>print\<close> hands it: it takes it (\<open>None\<close>) or raises, as a terminal
  does on a character its encoding lacks (\<open>UnicodeEncodeError\<close>). The credential and the
  client are opaque (type parameters). The remote operations are functions of the client,
  the submitted documents and the language hint: a deterministic service. The last two
  fields are the clock (\<open>time.time()\<close>) and the random source (\<open>random.random()\<close>) of
  the run; \<open>main\<close> reads neither.
\<close>

record ('cred, 'client) world =
  load_dotenv :: "exn + bool"
  getenv :: "string \<Rightarrow> string option"
  DefaultAzureCredential :: "exn + 'cred"
  TextAnalyticsClient :: "string option \<Rightarrow> 'cred \<Rightarrow> exn + 'client"
  listdir :: "string \<Rightarrow> exn + string list"
  open_read :: "string \<Rightarrow> exn + string"
  stdout_write :: "string \<Rightarrow> exn option"
  detect_language :: "'client \<Rightarrow> string list \<Rightarrow> exn + detect_language_result doc list"
  analyze_sentiment ::
    "'client \<Rightarrow> string list \<Rightarrow> string \<Rightarrow> exn + analyze_sentiment_result doc list"
  extract_key_phrases ::
    "'client \<Rightarrow> string list \<Rightarrow> string \<Rightarrow> exn + extract_key_phrases_result doc list"
  recognize_entities ::
    "'client \<Rightarrow> string list \<Rightarrow> string \<Rightarrow> exn + recognize_entities_result doc list"
  recognize_linked_entities ::
    "'client \<Rightarrow> string list \<Rightarrow> string \<Rightarrow> exn + recognize_linked_entities_result doc list"
  time_time :: nat
  random_random :: nat

subsection \<open>Events and computations\<close>

text \<open>
  The \<open>print\<close> statements of \<open>main\<close>, by line: 58 \<open>Header\<close>, 63 \<open>RawText\<close>,
  68 \<open>Language\<close>, 73 \<open>Sentiment\<close>, 75 \<open>Scores\<close>, 81 \<open>KeyPhrasesHeader\<close>,
  83 \<open>KeyPhrase\<close>, 89 \<open>EntitiesHeader\<close>, 92 \<open>Entity\<close>, 98 \<open>LinkedEntitiesHeader\<close>,
  101 \<open>LinkedEntity\<close>, 107 \<open>Error\<close>. The tag is not part of what is written: standard
  output is the strings alone, each followed by the newline \<open>print\<close> adds. A \<open>print\<close>
  that raises writes nothing.
\<close>

datatype site = Header | RawText | Language | Sentiment | Scores | KeyPhrasesHeader | KeyPhrase
  | EntitiesHeader | Entity | LinkedEntitiesHeader | LinkedEntity | Error

datatype request =
    DetectLanguage "string list"
  | AnalyzeSentiment "string list" string
  | ExtractKeyPhrases "string list" string
  | RecognizeEntities "string list" string
  | RecognizeLinkedEntities "string list" string

datatype event = Out site string | Call request

type_synonym 'a io = "event list \<times> (exn + 'a)"

definition ret :: "'a \<Rightarrow> 'a io" where
  "ret a = ([], Inr a)"

definition raise :: "exn \<Rightarrow> 'a io" where
  "raise ex = ([], Inl ex)"

definition bind :: "'a io \<Rightarrow> ('a \<Rightarrow> 'b io) \<Rightarrow> 'b io" where
  "bind m f =
     (case m of
        (t, Inl ex) \<Rightarrow> (t, Inl ex)
      | (t, Inr a) \<Rightarrow> (case f a of (t', r) \<Rightarrow> (t @ t', r)))"

definition print :: "('cred, 'client) world \<Rightarrow> site \<Rightarrow> string \<Rightarrow> unit io" where
  "print w s line =
     (case stdout_write w line of None \<Rightarrow> ([Out s line], Inr ()) | Some ex \<Rightarrow> ([], Inl ex))"

definition lift :: "exn + 'a \<Rightarrow> 'a io" where
  "lift r = ([], r)"

definition remote :: "request \<Rightarrow> exn + 'a \<Rightarrow> 'a io" where
  "remote rq r = ([Call rq], r)"

text \<open>\<open>xs[0]\<close>: \<open>IndexError\<close> on an empty list.\<close>

fun index0 :: "'a list \<Rightarrow> 'a io" where
  "index0 [] = raise (Exn (Exception ''IndexError'') ''list index out of range'')"
| "index0 (x # xs) = ret x"

text \<open>Reading a result attribute of the element a call returned.\<close>

fun attrs :: "'a doc \<Rightarrow> 'a io" where
  "attrs (Result a) = ret a"
| "attrs (DocumentError msg) = raise (Exn (Exception ''AttributeError'') msg)"

text \<open>A \<open>for\<close> loop over a list: the first iteration that raises ends the loop.\<close>

fun for_each :: "('a \<Rightarrow> unit io) \<Rightarrow> 'a list \<Rightarrow> unit io" where
  "for_each body [] = ret ()"
| "for_each body (x # xs) = bind (body x) (\<lambda>_. for_each body xs)"

subsection \<open>The loop body (lines 57 to 101)\<close>

abbreviation NL :: char where
  "NL \<equiv> CHR 0x0A"

abbreviation TAB :: char where
  "TAB \<equiv> CHR 0x09"

definition reviews_folder :: string where
  "reviews_folder = ''reviews''"

text \<open>\<open>os.path.join\<close> of a directory name without a trailing slash and a file name (POSIX).\<close>

definition path_join :: "string \<Rightarrow> string \<Rightarrow> string" where
  "path_join a b = (case b of [] \<Rightarrow> a @ ''/'' | c # r \<Rightarrow> if c = CHR ''/'' then b else a @ ''/'' @ b)"

definition header_line :: "string \<Rightarrow> string" where
  "header_line file_name = NL # ''-------------'' @ NL # file_name"

definition scores_line :: "sentiment_confidence_scores \<Rightarrow> string" where
  "scores_line cs =
     ''Scores: Positive='' @ format_2f (positive cs) @ '', Negative='' @ format_2f (negative cs) @
     '', Neutral='' @ format_2f (neutral cs)"

definition entity_line :: "categorized_entity \<Rightarrow> string" where
  "entity_line entity = TAB # entity_text entity @ '' ('' @ category entity @ '')''"

definition linked_entity_line :: "linked_entity \<Rightarrow> string" where
  "linked_entity_line entity = TAB # linked_name entity @ '': '' @ url entity"

definition print_key_phrases :: "('cred, 'client) world \<Rightarrow> string list \<Rightarrow> unit io" where
  "print_key_phrases w ps =
     (if ps \<noteq> [] then
        bind (print w KeyPhrasesHeader (NL # ''Key Phrases:'')) (\<lambda>_.
        for_each (\<lambda>phrase. print w KeyPhrase (TAB # phrase)) ps)
      else ret ())"

definition print_entities :: "('cred, 'client) world \<Rightarrow> categorized_entity list \<Rightarrow> unit io" where
  "print_entities w es =
     (if es \<noteq> [] then
        bind (print w EntitiesHeader (NL # ''Entities:'')) (\<lambda>_.
        for_each (\<lambda>entity. print w Entity (entity_line entity)) es)
      else ret ())"

definition print_linked_entities :: "('cred, 'client) world \<Rightarrow> linked_entity list \<Rightarrow> unit io" where
  "print_linked_entities w es =
     (if es \<noteq> [] then
        bind (print w LinkedEntitiesHeader (NL # ''Linked Entities:'')) (\<lambda>_.
        for_each (\<lambda>entity. print w LinkedEntity (linked_entity_line entity)) es)
      else ret ())"

definition process_file :: "('cred, 'client) world \<Rightarrow> 'client \<Rightarrow> string \<Rightarrow> unit io" where
  "process_file w client file_name =
     bind (print w Header (header_line file_name)) (\<lambda>_.
     bind (lift (open_read w (path_join reviews_folder file_name))) (\<lambda>text.
     bind (print w RawText (NL # text)) (\<lambda>_.
     bind (remote (DetectLanguage [text]) (detect_language w client [text])) (\<lambda>r1.
     bind (index0 r1) (\<lambda>d1.
     bind (attrs d1) (\<lambda>detected_language.
     bind (print w Language (NL # ''Language: '' @ name (primary_language detected_language))) (\<lambda>_.
     let iso = iso6391_name (primary_language detected_language) in
     bind (remote (AnalyzeSentiment [text] iso) (analyze_sentiment w client [text] iso)) (\<lambda>r2.
     bind (index0 r2) (\<lambda>d2.
     bind (attrs d2) (\<lambda>sentiment_analysis.
     bind (print w Sentiment (NL # ''Sentiment: '' @ sentiment sentiment_analysis)) (\<lambda>_.
     bind (print w Scores (scores_line (confidence_scores sentiment_analysis))) (\<lambda>_.
     bind (remote (ExtractKeyPhrases [text] iso) (extract_key_phrases w client [text] iso)) (\<lambda>r3.
     bind (index0 r3) (\<lambda>d3.
     bind (attrs d3) (\<lambda>phrases.
     bind (print_key_phrases w (key_phrases phrases)) (\<lambda>_.
     bind (remote (RecognizeEntities [text] iso) (recognize_entities w client [text] iso)) (\<lambda>r4.
     bind (index0 r4) (\<lambda>d4.
     bind (attrs d4) (\<lambda>entities_result.
     bind (print_entities w (entities entities_result)) (\<lambda>_.
     bind (remote (RecognizeLinkedEntities [text] iso)
             (recognize_linked_entities w client [text] iso)) (\<lambda>r5.
     bind (index0 r5) (\<lambda>d5.
     bind (attrs d5) (\<lambda>linked.
     print_linked_entities w (linked_entities linked))))))))))))))))))))))))"

text \<open>
  The same body cut at its remote calls, innermost first: what the pass does from the
  linked-entity call on, from the entity call on, and so on. The proofs take the body one
  slice at a time (\<open>process_file_slices\<close> below shows it is the same computation).
\<close>

definition linked_onwards :: "('cred, 'client) world \<Rightarrow> 'client \<Rightarrow> string \<Rightarrow> string \<Rightarrow> unit io" where
  "linked_onwards w client text lang =
     bind (remote (RecognizeLinkedEntities [text] lang)
             (recognize_linked_entities w client [text] lang)) (\<lambda>r5.
     bind (index0 r5) (\<lambda>d5.
     bind (attrs d5) (\<lambda>linked.
     print_linked_entities w (linked_entities linked))))"

definition entities_onwards :: "('cred, 'client) world \<Rightarrow> 'client \<Rightarrow> string \<Rightarrow> string \<Rightarrow> unit io" where
  "entities_onwards w client text lang =
     bind (remote (RecognizeEntities [text] lang) (recognize_entities w client [text] lang)) (\<lambda>r4.
     bind (index0 r4) (\<lambda>d4.
     bind (attrs d4) (\<lambda>entities_result.
     bind (print_entities w (entities entities_result)) (\<lambda>_.
     linked_onwards w client text lang))))"

definition key_phrases_onwards ::
  "('cred, 'client) world \<Rightarrow> 'client \<Rightarrow> string \<Rightarrow> string \<Rightarrow> unit io" where
  "key_phrases_onwards w client text lang =
     bind (remote (ExtractKeyPhrases [text] lang) (extract_key_phrases w client [text] lang)) (\<lambda>r3.
     bind (index0 r3) (\<lambda>d3.
     bind (attrs d3) (\<lambda>phrases.
     bind (print_key_phrases w (key_phrases phrases)) (\<lambda>_.
     entities_onwards w client text lang))))"

definition sentiment_onwards ::
  "('cred, 'client) world \<Rightarrow> 'client \<Rightarrow> string \<Rightarrow> string \<Rightarrow> unit io" where
  "sentiment_onwards w client text lang =
     bind (remote (AnalyzeSentiment [text] lang) (analyze_sentiment w client [text] lang)) (\<lambda>r2.
     bind (index0 r2) (\<lambda>d2.
     bind (attrs d2) (\<lambda>sentiment_analysis.
     bind (print w Sentiment (NL # ''Sentiment: '' @ sentiment sentiment_analysis)) (\<lambda>_.
     bind (print w Scores (scores_line (confidence_scores sentiment_analysis))) (\<lambda>_.
     key_phrases_onwards w client text lang)))))"

definition language_onwards :: "('cred, 'client) world \<Rightarrow> 'client \<Rightarrow> string \<Rightarrow> unit io" where
  "language_onwards w client text =
     bind (remote (DetectLanguage [text]) (detect_language w client [text])) (\<lambda>r1.
     bind (index0 r1) (\<lambda>d1.
     bind (attrs d1) (\<lambda>detected_language.
     bind (print w Language (NL # ''Language: '' @ name (primary_language detected_language))) (\<lambda>_.
     sentiment_onwards w client text (iso6391_name (primary_language detected_language))))))"

subsection \<open>\<open>main\<close> (lines 30 to 107)\<close>

text \<open>
  The \<open>try\<close> block: configuration, credential, client, the listing of the folder, and the
  loop over its file names in the order \<open>os.listdir\<close> returned them.
\<close>

definition try_block :: "('cred, 'client) world \<Rightarrow> unit io" where
  "try_block w =
     bind (lift (load_dotenv w)) (\<lambda>_.
     let ai_endpoint = getenv w ''AI_SERVICE_ENDPOINT'' in
     bind (lift (DefaultAzureCredential w)) (\<lambda>credential.
     bind (lift (TextAnalyticsClient w ai_endpoint credential)) (\<lambda>client.
     bind (lift (listdir w reviews_folder)) (\<lambda>files.
     for_each (process_file w client) files))))"

text \<open>
  How \<open>main\<close> ends: it returns, or an exception leaves it, which nothing above
  \<open>main()\<close> (line 112) catches. The handler's own \<open>print\<close> is outside the \<open>try\<close>
  block: what it raises leaves \<open>main\<close>.
\<close>

datatype outcome = Returned | Propagated exn

definition main :: "('cred, 'client) world \<Rightarrow> event list \<times> outcome" where
  "main w =
     (case try_block w of
        (t, Inr u) \<Rightarrow> (t, Returned)
      | (t, Inl ex) \<Rightarrow>
          if isinstance_Exception ex then
            (case print w Error (str ex) of
               (t', Inr u) \<Rightarrow> (t @ t', Returned)
             | (t', Inl ex') \<Rightarrow> (t @ t', Propagated ex'))
          else (t, Propagated ex))"



subsection \<open>Observations on a run\<close>



fun is_call :: "event \<Rightarrow> bool" where
  "is_call (Call rq) = True"
| "is_call (Out s line) = False"

definition calls :: "event list \<Rightarrow> event list" where
  "calls t = filter is_call t"

definition outputs :: "event list \<Rightarrow> event list" where
  "outputs t = filter (\<lambda>ev. \<not> is_call ev) t"

fun is_header :: "event \<Rightarrow> bool" where
  "is_header (Out s line) = (s = Header)"
| "is_header (Call rq) = False"

definition headers :: "event list \<Rightarrow> event list" where
  "headers t = filter is_header t"

fun site_of :: "event \<Rightarrow> site option" where
  "site_of (Out s line) = Some s"
| "site_of (Call rq) = None"


text \<open>
  What the \<open>try\<close> block has before the loop (lines 37 to 56), as one value: the client
  and the listing of the folder, or the exception of the first step that raised.
\<close>

definition startup :: "('cred, 'client) world \<Rightarrow> exn + 'client \<times> string list" where
  "startup w =
     (case load_dotenv w of
        Inl ex \<Rightarrow> Inl ex
      | Inr loaded \<Rightarrow>
          (case DefaultAzureCredential w of
             Inl ex \<Rightarrow> Inl ex
           | Inr credential \<Rightarrow>
               (case TextAnalyticsClient w (getenv w ''AI_SERVICE_ENDPOINT'') credential of
                  Inl ex \<Rightarrow> Inl ex
                | Inr client \<Rightarrow>
                    (case listdir w reviews_folder of
                       Inl ex \<Rightarrow> Inl ex
                     | Inr files \<Rightarrow> Inr (client, files)))))"


subsection \<open>The specification's words\<close>

text \<open>
  The output sections as the specification lists them: key phrases (if any, one per line,
  indented), entities as "text (category)" (if any), linked entities as "name: url"
  (if any). A section that has nothing to show is absent, header included.
\<close>

definition key_phrases_section :: "string list \<Rightarrow> event list" where
  "key_phrases_section ps =
     (if ps = [] then []
      else Out KeyPhrasesHeader (NL # ''Key Phrases:'') # map (\<lambda>p. Out KeyPhrase (TAB # p)) ps)"

definition entities_section :: "categorized_entity list \<Rightarrow> event list" where
  "entities_section es =
     (if es = [] then []
      else Out EntitiesHeader (NL # ''Entities:'') #
           map (\<lambda>e. Out Entity (TAB # entity_text e @ '' ('' @ category e @ '')'')) es)"

definition linked_entities_section :: "linked_entity list \<Rightarrow> event list" where
  "linked_entities_section es =
     (if es = [] then []
      else Out LinkedEntitiesHeader (NL # ''Linked Entities:'') #
           map (\<lambda>e. Out LinkedEntity (TAB # linked_name e @ '': '' @ url e)) es)"

text \<open>
  The five remote calls of one file: language detection first, then the four analyses,
  each with the one document and the detected language's ISO 639-1 code.
\<close>

definition five_calls :: "string \<Rightarrow> string \<Rightarrow> event list" where
  "five_calls text lang =
     [Call (DetectLanguage [text]), Call (AnalyzeSentiment [text] lang),
      Call (ExtractKeyPhrases [text] lang), Call (RecognizeEntities [text] lang),
      Call (RecognizeLinkedEntities [text] lang)]"

text \<open>
  The text of a file and the ISO code of its detected language, as the world gives them
  (empty where the read or the detection gives none).
\<close>

definition file_text :: "('cred, 'client) world \<Rightarrow> string \<Rightarrow> string" where
  "file_text w f =
     (case open_read w (path_join reviews_folder f) of Inl ex \<Rightarrow> [] | Inr t \<Rightarrow> t)"

definition detected_code :: "('cred, 'client) world \<Rightarrow> 'client \<Rightarrow> string \<Rightarrow> string" where
  "detected_code w client f =
     (case detect_language w client [file_text w f] of
        Inl ex \<Rightarrow> []
      | Inr [] \<Rightarrow> []
      | Inr (DocumentError msg # rs) \<Rightarrow> []
      | Inr (Result d # rs) \<Rightarrow> iso6391_name (primary_language d))"

text \<open>
  The number a rendered score denotes: the digits before the point, plus the two digits
  after it as hundredths, negated after a minus sign.
\<close>

fun is_finite :: "pyfloat \<Rightarrow> bool" where
  "is_finite (Finite s m e) = True"
| "is_finite NaN = False"
| "is_finite (Inf s) = False"

definition digit_value :: "char \<Rightarrow> nat" where
  "digit_value c = of_char c - 48"

definition numeral_value :: "string \<Rightarrow> nat" where
  "numeral_value ds = foldl (\<lambda>a c. 10 * a + digit_value c) 0 ds"

definition decimal_value :: "string \<Rightarrow> rat" where
  "decimal_value s =
     (let neg = (case s of [] \<Rightarrow> False | c # r \<Rightarrow> c = CHR ''-'');
          body = (if neg then tl s else s);
          n = length body
      in (if neg then - 1 else 1) *
         (of_nat (numeral_value (take (n - 3) body)) +
          of_nat (numeral_value (drop (n - 2) body)) / 100))"

text \<open>
  "Formatted to two decimal places", for a finite score of magnitude \<open>m * 2^e\<close>: an
  optional minus sign (there exactly when the sign bit is set), an integer part without a
  superfluous leading zero, a point and two digits, the hundredths written being the
  magnitude's hundredths rounded to the nearest integer, to the even one at a tie.
\<close>

definition unsigned_part :: "string \<Rightarrow> string" where
  "unsigned_part p = (case p of [] \<Rightarrow> [] | c # r \<Rightarrow> if c = CHR ''-'' then r else p)"

definition starts_with_minus :: "string \<Rightarrow> bool" where
  "starts_with_minus p = (case p of [] \<Rightarrow> False | c # r \<Rightarrow> c = CHR ''-'')"

definition written_hundredths :: "string \<Rightarrow> nat" where
  "written_hundredths p =
     (let body = unsigned_part p; n = length body
      in 100 * numeral_value (take (n - 3) body) + numeral_value (drop (n - 2) body))"

definition is_nonzero_digit :: "char \<Rightarrow> bool" where
  "is_nonzero_digit c = (c \<in> set ''123456789'')"

definition no_leading_zero :: "string \<Rightarrow> bool" where
  "no_leading_zero p =
     (length (unsigned_part p) = 4 \<or>
      (case unsigned_part p of [] \<Rightarrow> False | c # r \<Rightarrow> is_nonzero_digit c))"

definition magnitude :: "nat \<Rightarrow> int \<Rightarrow> rat" where
  "magnitude m e = (if 0 \<le> e then of_nat m * 2 ^ nat e else of_nat m / 2 ^ nat (- e))"

definition round_half_even :: "rat \<Rightarrow> nat \<Rightarrow> bool" where
  "round_half_even q n = (\<bar>of_nat n - q\<bar> < 1 / 2 \<or> (\<bar>of_nat n - q\<bar> = 1 / 2 \<and> even n))"

fun two_places :: "pyfloat \<Rightarrow> string \<Rightarrow> bool" where
  "two_places (Finite s m e) p =
     (two_decimal_digits p \<and> starts_with_minus p = s \<and> no_leading_zero p \<and>
      round_half_even (100 * magnitude m e) (written_hundredths p))"
| "two_places NaN p = (p = ''nan'')"
| "two_places (Inf s) p = (p = (if s then ''-inf'' else ''inf''))"

subsection \<open>A stub service and a folder of three reviews\<close>

definition no_such_file :: exn where
  "no_such_file = Exn (Exception ''FileNotFoundError'') ''No such file or directory''"

definition english :: detect_language_result where
  "english = \<lparr>primary_language = \<lparr>name = ''English'', iso6391_name = ''en''\<rparr>\<rparr>"

definition mostly_positive :: analyze_sentiment_result where
  "mostly_positive =
     \<lparr>sentiment = ''positive'',
      confidence_scores =
        \<lparr>positive = Finite False 7 (- 3), negative = Finite False 3 (- 5),
         neutral = Finite False 2 (- 6)\<rparr>\<rparr>"

definition stub_world :: "(unit, unit) world" where
  "stub_world =
     \<lparr>load_dotenv = Inr True,
      getenv = (\<lambda>v. if v = ''AI_SERVICE_ENDPOINT'' then Some ''https://stub'' else None),
      DefaultAzureCredential = Inr (),
      TextAnalyticsClient = (\<lambda>endpoint credential. Inr ()),
      listdir = (\<lambda>d. if d = ''reviews'' then Inr [''a.txt'', ''b.txt'', ''c.txt'']
                       else Inl no_such_file),
      open_read = (\<lambda>p. if p = ''reviews/a.txt'' then Inr ''Good hotel.''
                         else if p = ''reviews/b.txt'' then Inr ''Bad.''
                         else if p = ''reviews/c.txt'' then Inr ''Fine.''
                         else Inl no_such_file),
      stdout_write = (\<lambda>line. None),
      detect_language = (\<lambda>client docs. Inr [Result english]),
      analyze_sentiment = (\<lambda>client docs lang. Inr [Result mostly_positive]),
      extract_key_phrases = (\<lambda>client docs lang.
        Inr [Result \<lparr>key_phrases = (if docs = [''Good hotel.''] then [''hotel''] else [])\<rparr>]),
      recognize_entities = (\<lambda>client docs lang.
        Inr [Result \<lparr>entities = (if docs = [''Good hotel.'']
                                   then [\<lparr>entity_text = ''hotel'', category = ''Location''\<rparr>]
                                   else [])\<rparr>]),
      recognize_linked_entities = (\<lambda>client docs lang.
        Inr [Result \<lparr>linked_entities = (if docs = [''Good hotel.'']
                                          then [\<lparr>linked_name = ''Hotel'', url = ''https://w/Hotel''\<rparr>]
                                          else [])\<rparr>]),
      time_time = 1700000000,
      random_random = 7\<rparr>"

text \<open>The same world, with entity recognition failing on the second review.\<close>

definition network_error :: exn where
  "network_error = Exn (Exception ''ServiceRequestError'') ''connection reset''"

definition failing_world :: "(unit, unit) world" where
  "failing_world =
     stub_world\<lparr>recognize_entities := (\<lambda>client docs lang.
        if docs = [''Bad.''] then Inl network_error
        else recognize_entities stub_world client docs lang)\<rparr>"

text \<open>The same world, with the user interrupting the first sentiment call.\<close>

definition interrupted_world :: "(unit, unit) world" where
  "interrupted_world =
     stub_world\<lparr>analyze_sentiment := (\<lambda>client docs lang. Inl (Exn KeyboardInterrupt []))\<rparr>"

text \<open>
  A second run of the stub world: another time, another state of the random source, other
  environment variables, and a file system that differs outside the folder's three files.
\<close>

definition second_run_world :: "(unit, unit) world" where
  "second_run_world =
     stub_world\<lparr>getenv := (\<lambda>v. if v = ''AI_SERVICE_ENDPOINT'' then Some ''https://stub''
                               else Some ''other''),
                open_read := (\<lambda>p. if p = ''notes.txt'' then Inr ''unrelated''
                                   else open_read stub_world p),
                time_time := 1700003600,
                random_random := 42\<rparr>"

text \<open>The same world, with the user interrupting the read of the second review.\<close>

definition interrupted_read_world :: "(unit, unit) world" where
  "interrupted_read_world =
     stub_world\<lparr>open_read := (\<lambda>p. if p = ''reviews/b.txt'' then Inl (Exn KeyboardInterrupt [])
                                   else open_read stub_world p)\<rparr>"

text \<open>The same folder and service, the same three names listed in another order.\<close>

definition permuted_world :: "(unit, unit) world" where
  "permuted_world =
     stub_world\<lparr>listdir := (\<lambda>d. if d = ''reviews'' then Inr [''b.txt'', ''a.txt'', ''c.txt'']
                                else Inl no_such_file)\<rparr>"

text \<open>The stub world, with a service whose scores are not finite numbers.\<close>

definition nan_world :: "(unit, unit) world" where
  "nan_world =
     stub_world\<lparr>analyze_sentiment := (\<lambda>client docs lang.
        Inr [Result \<lparr>sentiment = ''mixed'',
                      confidence_scores =
                        \<lparr>positive = NaN, negative = Inf False, neutral = Inf True\<rparr>\<rparr>])\<rparr>"

text \<open>The stub world, with a library that calls \<open>sys.exit()\<close> during the first sentiment call.\<close>

definition sysexit_world :: "(unit, unit) world" where
  "sysexit_world =
     stub_world\<lparr>analyze_sentiment := (\<lambda>client docs lang. Inl (Exn (SystemExit ExitNone) []))\<rparr>"




text \<open>A folder whose two names differ in length.\<close>

definition named_world :: "(unit, unit) world" where
  "named_world =
     stub_world\<lparr>listdir := (\<lambda>d. if d = ''reviews'' then Inr [''first-review.txt'', ''b.txt'']
                                else Inl no_such_file),
                open_read := (\<lambda>p. if p = ''reviews/first-review.txt'' then Inr ''Good hotel.''
                                   else open_read stub_world p)\<rparr>"

section \<open>Properties\<close>

subsection \<open>Computations\<close>

lemma fst_bind:
  "fst (bind m f) = fst m @ (case snd m of Inl ex \<Rightarrow> [] | Inr a \<Rightarrow> fst (f a))"
  by (auto simp: bind_def split: prod.splits sum.splits)

lemma snd_bind:
  "snd (bind m f) = (case snd m of Inl ex \<Rightarrow> Inl ex | Inr a \<Rightarrow> snd (f a))"
  by (auto simp: bind_def split: prod.splits sum.splits)

lemma fst_print:
  "fst (print w s line) = (case stdout_write w line of None \<Rightarrow> [Out s line] | Some ex \<Rightarrow> [])"
  by (simp add: print_def split: option.splits)

lemma snd_print:
  "snd (print w s line) = (case stdout_write w line of None \<Rightarrow> Inr () | Some ex \<Rightarrow> Inl ex)"
  by (simp add: print_def split: option.splits)

lemma snd_print_Inr: "snd (print w s line) = Inr u \<longleftrightarrow> stdout_write w line = None"
  by (simp add: print_def split: option.splits)

lemma fst_lift [simp]: "fst (lift r) = []"
  by (simp add: lift_def)

lemma snd_lift [simp]: "snd (lift r) = r"
  by (simp add: lift_def)

lemma fst_remote [simp]: "fst (remote rq r) = [Call rq]"
  by (simp add: remote_def)

lemma snd_remote [simp]: "snd (remote rq r) = r"
  by (simp add: remote_def)

lemma fst_ret [simp]: "fst (ret a) = []"
  by (simp add: ret_def)

lemma snd_ret [simp]: "snd (ret a) = Inr a"
  by (simp add: ret_def)

lemma fst_index0 [simp]: "fst (index0 xs) = []"
  by (cases xs) (simp_all add: raise_def ret_def)

lemma snd_index0_Inr [simp]: "snd (index0 xs) = Inr a \<longleftrightarrow> (\<exists>r. xs = a # r)"
  by (cases xs) (auto simp: raise_def ret_def)

lemma fst_attrs [simp]: "fst (attrs d) = []"
  by (cases d) (simp_all add: raise_def ret_def)

lemma snd_attrs_Inr [simp]: "snd (attrs d) = Inr a \<longleftrightarrow> d = Result a"
  by (cases d) (auto simp: raise_def ret_def)

text \<open>A loop of \<open>print\<close> statements: what it writes when it completes, and what it can write.\<close>

lemma for_each_print_Inr:
  "snd (for_each (\<lambda>x. print w s (g x)) xs) = Inr u \<Longrightarrow>
   fst (for_each (\<lambda>x. print w s (g x)) xs) = map (\<lambda>x. Out s (g x)) xs"
  by (induction xs) (auto simp: fst_bind snd_bind fst_print snd_print split: option.splits)

lemma for_each_print_filter:
  "(\<And>line. \<not> P (Out s line)) \<Longrightarrow> filter P (fst (for_each (\<lambda>x. print w s (g x)) xs)) = []"
  by (induction xs) (auto simp: fst_bind snd_bind fst_print snd_print split: option.splits)

lemma print_key_phrases_Inr:
  "snd (print_key_phrases w ps) = Inr u \<Longrightarrow> fst (print_key_phrases w ps) = key_phrases_section ps"
  by (auto simp: print_key_phrases_def key_phrases_section_def fst_bind snd_bind fst_print
      snd_print for_each_print_Inr split: option.splits if_splits)

lemma print_entities_Inr:
  "snd (print_entities w es) = Inr u \<Longrightarrow> fst (print_entities w es) = entities_section es"
  by (auto simp: print_entities_def entities_section_def entity_line_def fst_bind snd_bind
      fst_print snd_print for_each_print_Inr split: option.splits if_splits)

lemma print_linked_entities_Inr:
  "snd (print_linked_entities w es) = Inr u \<Longrightarrow>
   fst (print_linked_entities w es) = linked_entities_section es"
  by (auto simp: print_linked_entities_def linked_entities_section_def linked_entity_line_def
      fst_bind snd_bind fst_print snd_print for_each_print_Inr split: option.splits if_splits)

lemma print_key_phrases_filter:
  "(\<And>line. \<not> P (Out KeyPhrasesHeader line)) \<Longrightarrow> (\<And>line. \<not> P (Out KeyPhrase line)) \<Longrightarrow>
   filter P (fst (print_key_phrases w ps)) = []"
  by (auto simp: print_key_phrases_def fst_bind snd_bind fst_print snd_print
      for_each_print_filter split: option.splits)

lemma print_entities_filter:
  "(\<And>line. \<not> P (Out EntitiesHeader line)) \<Longrightarrow> (\<And>line. \<not> P (Out Entity line)) \<Longrightarrow>
   filter P (fst (print_entities w es)) = []"
  by (auto simp: print_entities_def fst_bind snd_bind fst_print snd_print
      for_each_print_filter split: option.splits)

lemma print_linked_entities_filter:
  "(\<And>line. \<not> P (Out LinkedEntitiesHeader line)) \<Longrightarrow> (\<And>line. \<not> P (Out LinkedEntity line)) \<Longrightarrow>
   filter P (fst (print_linked_entities w es)) = []"
  by (auto simp: print_linked_entities_def fst_bind snd_bind fst_print snd_print
      for_each_print_filter split: option.splits)

lemma print_key_phrases_Nil: "print_key_phrases w [] = ([], Inr ())"
  by (simp add: print_key_phrases_def ret_def)

lemmas sections = key_phrases_section_def entities_section_def linked_entities_section_def

subsection \<open>The loop\<close>

lemma for_each_all_ok:
  "\<forall>x\<in>set xs. snd (body x) = Inr () \<Longrightarrow>
   for_each body xs = (concat (map (\<lambda>x. fst (body x)) xs), Inr ())"
  by (induction xs) (auto simp: ret_def bind_def split: prod.splits sum.splits)

lemma for_each_first_failure:
  "\<forall>x\<in>set pre. snd (body x) = Inr () \<Longrightarrow> snd (body x) = Inl ex \<Longrightarrow>
   for_each body (pre @ x # post) = (concat (map (\<lambda>x. fst (body x)) pre) @ fst (body x), Inl ex)"
  by (induction pre) (auto simp: ret_def bind_def split: prod.splits sum.splits)



lemma try_block_startup:
  "try_block w =
     (case startup w of
        Inl ex \<Rightarrow> ([], Inl ex)
      | Inr (client, files) \<Rightarrow> for_each (process_file w client) files)"
  by (simp add: try_block_def startup_def bind_def lift_def Let_def split: sum.splits prod.splits)

lemma main_eq:
  "main w =
     (case snd (try_block w) of
        Inr u \<Rightarrow> (fst (try_block w), Returned)
      | Inl ex \<Rightarrow>
          if isinstance_Exception ex then
            (case stdout_write w (str ex) of
               None \<Rightarrow> (fst (try_block w) @ [Out Error (str ex)], Returned)
             | Some ex' \<Rightarrow> (fst (try_block w), Propagated ex'))
          else (fst (try_block w), Propagated ex))"
  by (cases "try_block w") (simp add: main_def print_def split: sum.splits option.splits)

subsection \<open>One pass of the loop body\<close>

lemma process_file_slices:
  "process_file w c f =
     bind (print w Header (header_line f)) (\<lambda>_.
     bind (lift (open_read w (path_join reviews_folder f))) (\<lambda>text.
     bind (print w RawText (NL # text)) (\<lambda>_.
     language_onwards w c text)))"
  by (simp only: process_file_def language_onwards_def sentiment_onwards_def
      key_phrases_onwards_def entities_onwards_def linked_onwards_def Let_def)

lemma bind_Inr_iff:
  "bind m f = (t, Inr b) \<longleftrightarrow> (\<exists>t1 a t2. m = (t1, Inr a) \<and> f a = (t2, Inr b) \<and> t = t1 @ t2)"
  by (auto simp: bind_def split: prod.splits sum.splits)

lemma print_Inr_iff: "print w s line = (t, Inr u) \<longleftrightarrow> stdout_write w line = None \<and> t = [Out s line]"
  by (auto simp: print_def split: option.splits)

lemma lift_Inr_iff: "lift x = (t, Inr a) \<longleftrightarrow> t = [] \<and> x = Inr a"
  by (auto simp: lift_def)

lemma remote_Inr_iff: "remote rq x = (t, Inr a) \<longleftrightarrow> t = [Call rq] \<and> x = Inr a"
  by (auto simp: remote_def)

lemma index0_Inr_iff: "index0 xs = (t, Inr a) \<longleftrightarrow> t = [] \<and> (\<exists>r. xs = a # r)"
  by (cases xs) (auto simp: raise_def ret_def)

lemma attrs_Inr_iff: "attrs d = (t, Inr a) \<longleftrightarrow> t = [] \<and> d = Result a"
  by (cases d) (auto simp: raise_def ret_def)

lemma print_key_phrases_InrD:
  "print_key_phrases w ps = (t, Inr u) \<Longrightarrow> t = key_phrases_section ps"
  using print_key_phrases_Inr[of w ps u] by simp

lemma print_entities_InrD:
  "print_entities w es = (t, Inr u) \<Longrightarrow> t = entities_section es"
  using print_entities_Inr[of w es u] by simp

lemma print_linked_entities_InrD:
  "print_linked_entities w es = (t, Inr u) \<Longrightarrow> t = linked_entities_section es"
  using print_linked_entities_Inr[of w es u] by simp

lemmas Inr_iffs = bind_Inr_iff print_Inr_iff lift_Inr_iff remote_Inr_iff index0_Inr_iff
  attrs_Inr_iff

lemma process_file_pair_Inr:
  assumes "process_file w c f = (t, Inr u)"
  shows "\<exists>text d s p e l rs1 rs2 rs3 rs4 rs5.
    open_read w (path_join reviews_folder f) = Inr text \<and>
    detect_language w c [text] = Inr (Result d # rs1) \<and>
    analyze_sentiment w c [text] (iso6391_name (primary_language d)) = Inr (Result s # rs2) \<and>
    extract_key_phrases w c [text] (iso6391_name (primary_language d)) = Inr (Result p # rs3) \<and>
    recognize_entities w c [text] (iso6391_name (primary_language d)) = Inr (Result e # rs4) \<and>
    recognize_linked_entities w c [text] (iso6391_name (primary_language d)) =
      Inr (Result l # rs5) \<and>
    t =
      [Out Header (header_line f), Out RawText (NL # text), Call (DetectLanguage [text]),
       Out Language (NL # ''Language: '' @ name (primary_language d)),
       Call (AnalyzeSentiment [text] (iso6391_name (primary_language d))),
       Out Sentiment (NL # ''Sentiment: '' @ sentiment s),
       Out Scores (scores_line (confidence_scores s)),
       Call (ExtractKeyPhrases [text] (iso6391_name (primary_language d)))] @
      key_phrases_section (key_phrases p) @
      [Call (RecognizeEntities [text] (iso6391_name (primary_language d)))] @
      entities_section (entities e) @
      [Call (RecognizeLinkedEntities [text] (iso6391_name (primary_language d)))] @
      linked_entities_section (linked_entities l)"
  using assms unfolding process_file_def Let_def
  by (auto simp: Inr_iffs
      dest!: print_key_phrases_InrD print_entities_InrD print_linked_entities_InrD)

lemma process_file_Inr:
  assumes "snd (process_file w c f) = Inr u"
  shows "\<exists>text d s p e l rs1 rs2 rs3 rs4 rs5.
    open_read w (path_join reviews_folder f) = Inr text \<and>
    detect_language w c [text] = Inr (Result d # rs1) \<and>
    analyze_sentiment w c [text] (iso6391_name (primary_language d)) = Inr (Result s # rs2) \<and>
    extract_key_phrases w c [text] (iso6391_name (primary_language d)) = Inr (Result p # rs3) \<and>
    recognize_entities w c [text] (iso6391_name (primary_language d)) = Inr (Result e # rs4) \<and>
    recognize_linked_entities w c [text] (iso6391_name (primary_language d)) =
      Inr (Result l # rs5) \<and>
    fst (process_file w c f) =
      [Out Header (header_line f), Out RawText (NL # text), Call (DetectLanguage [text]),
       Out Language (NL # ''Language: '' @ name (primary_language d)),
       Call (AnalyzeSentiment [text] (iso6391_name (primary_language d))),
       Out Sentiment (NL # ''Sentiment: '' @ sentiment s),
       Out Scores (scores_line (confidence_scores s)),
       Call (ExtractKeyPhrases [text] (iso6391_name (primary_language d)))] @
      key_phrases_section (key_phrases p) @
      [Call (RecognizeEntities [text] (iso6391_name (primary_language d)))] @
      entities_section (entities e) @
      [Call (RecognizeLinkedEntities [text] (iso6391_name (primary_language d)))] @
      linked_entities_section (linked_entities l)"
proof -
  have "process_file w c f = (fst (process_file w c f), Inr u)"
    using assms by (cases "process_file w c f") simp
  then show ?thesis by (rule process_file_pair_Inr)
qed

lemma outputs_sections:
  "outputs (key_phrases_section ps) = key_phrases_section ps"
  "outputs (entities_section es) = entities_section es"
  "outputs (linked_entities_section ls) = linked_entities_section ls"
  by (auto simp: outputs_def sections filter_id_conv)

lemma calls_sections:
  "calls (key_phrases_section ps) = []"
  "calls (entities_section es) = []"
  "calls (linked_entities_section ls) = []"
  by (auto simp: calls_def sections filter_empty_conv)

lemma outputs_append: "outputs (xs @ ys) = outputs xs @ outputs ys"
  by (simp add: outputs_def)

lemma calls_append: "calls (xs @ ys) = calls xs @ calls ys"
  by (simp add: calls_def)

lemma calls_concat: "calls (concat ts) = concat (map calls ts)"
  by (induction ts) (simp_all add: calls_def)

lemma outputs_Cons:
  "outputs (Out s line # t) = Out s line # outputs t" "outputs (Call rq # t) = outputs t"
  "outputs [] = []"
  by (simp_all add: outputs_def)

lemma calls_Cons:
  "calls (Out s line # t) = calls t" "calls (Call rq # t) = Call rq # calls t" "calls [] = []"
  by (simp_all add: calls_def)

lemma calls_printers:
  "calls (fst (print_key_phrases w ps)) = []"
  "calls (fst (print_entities w es)) = []"
  "calls (fst (print_linked_entities w ls)) = []"
  unfolding calls_def
  by (simp_all add: print_key_phrases_filter print_entities_filter print_linked_entities_filter)

lemma calls_process_file_Inr:
  assumes "snd (process_file w c f) = Inr u"
  shows "open_read w (path_join reviews_folder f) = Inr (file_text w f) \<and>
    (\<exists>d rs. detect_language w c [file_text w f] = Inr (Result d # rs) \<and>
       detected_code w c f = iso6391_name (primary_language d)) \<and>
    calls (fst (process_file w c f)) = five_calls (file_text w f) (detected_code w c f)"
proof -
  from process_file_Inr[OF assms] obtain tx d s p e l rs1 rs2 rs3 rs4 rs5 where
    h: "open_read w (path_join reviews_folder f) = Inr tx"
      "detect_language w c [tx] = Inr (Result d # rs1)"
    and "analyze_sentiment w c [tx] (iso6391_name (primary_language d)) = Inr (Result s # rs2)"
      "extract_key_phrases w c [tx] (iso6391_name (primary_language d)) = Inr (Result p # rs3)"
      "recognize_entities w c [tx] (iso6391_name (primary_language d)) = Inr (Result e # rs4)"
      "recognize_linked_entities w c [tx] (iso6391_name (primary_language d)) =
        Inr (Result l # rs5)"
    and t: "fst (process_file w c f) =
      [Out Header (header_line f), Out RawText (NL # tx), Call (DetectLanguage [tx]),
       Out Language (NL # ''Language: '' @ name (primary_language d)),
       Call (AnalyzeSentiment [tx] (iso6391_name (primary_language d))),
       Out Sentiment (NL # ''Sentiment: '' @ sentiment s),
       Out Scores (scores_line (confidence_scores s)),
       Call (ExtractKeyPhrases [tx] (iso6391_name (primary_language d)))] @
      key_phrases_section (key_phrases p) @
      [Call (RecognizeEntities [tx] (iso6391_name (primary_language d)))] @
      entities_section (entities e) @
      [Call (RecognizeLinkedEntities [tx] (iso6391_name (primary_language d)))] @
      linked_entities_section (linked_entities l)"
    by blast
  from h(1) have tx: "file_text w f = tx"
    by (simp add: file_text_def)
  with h(2) have code: "detected_code w c f = iso6391_name (primary_language d)"
    by (simp add: detected_code_def)
  have "calls (fst (process_file w c f)) = five_calls tx (iso6391_name (primary_language d))"
    unfolding t by (simp add: calls_append calls_Cons calls_sections five_calls_def)
  with h tx code show ?thesis by auto
qed


text \<open>Events that a predicate cannot hold of, slice by slice.\<close>

lemma linked_onwards_filter:
  assumes "\<And>rq. \<not> P (Call rq)"
    and "\<And>line. \<not> P (Out LinkedEntitiesHeader line)" and "\<And>line. \<not> P (Out LinkedEntity line)"
  shows "filter P (fst (linked_onwards w c text lang)) = []"
  unfolding linked_onwards_def
  by (simp add: fst_bind snd_bind assms print_linked_entities_filter split: sum.splits)

lemma entities_onwards_filter:
  assumes "\<And>rq. \<not> P (Call rq)"
    and "\<And>line. \<not> P (Out LinkedEntitiesHeader line)" and "\<And>line. \<not> P (Out LinkedEntity line)"
    and "\<And>line. \<not> P (Out EntitiesHeader line)" and "\<And>line. \<not> P (Out Entity line)"
  shows "filter P (fst (entities_onwards w c text lang)) = []"
  unfolding entities_onwards_def
  by (simp add: fst_bind snd_bind assms print_entities_filter linked_onwards_filter
      split: sum.splits)

lemma key_phrases_onwards_filter:
  assumes "\<And>rq. \<not> P (Call rq)"
    and "\<And>line. \<not> P (Out LinkedEntitiesHeader line)" and "\<And>line. \<not> P (Out LinkedEntity line)"
    and "\<And>line. \<not> P (Out EntitiesHeader line)" and "\<And>line. \<not> P (Out Entity line)"
    and "\<And>line. \<not> P (Out KeyPhrasesHeader line)" and "\<And>line. \<not> P (Out KeyPhrase line)"
  shows "filter P (fst (key_phrases_onwards w c text lang)) = []"
  unfolding key_phrases_onwards_def
  by (simp add: fst_bind snd_bind assms print_key_phrases_filter entities_onwards_filter
      split: sum.splits)

lemma sentiment_onwards_filter:
  assumes "\<And>rq. \<not> P (Call rq)"
    and "\<And>line. \<not> P (Out LinkedEntitiesHeader line)" and "\<And>line. \<not> P (Out LinkedEntity line)"
    and "\<And>line. \<not> P (Out EntitiesHeader line)" and "\<And>line. \<not> P (Out Entity line)"
    and "\<And>line. \<not> P (Out KeyPhrasesHeader line)" and "\<And>line. \<not> P (Out KeyPhrase line)"
    and "\<And>line. \<not> P (Out Sentiment line)" and "\<And>line. \<not> P (Out Scores line)"
  shows "filter P (fst (sentiment_onwards w c text lang)) = []"
  unfolding sentiment_onwards_def
  by (simp add: fst_bind snd_bind fst_print snd_print assms key_phrases_onwards_filter
      split: sum.splits option.splits)

lemma language_onwards_filter:
  assumes "\<And>rq. \<not> P (Call rq)"
    and "\<And>line. \<not> P (Out LinkedEntitiesHeader line)" and "\<And>line. \<not> P (Out LinkedEntity line)"
    and "\<And>line. \<not> P (Out EntitiesHeader line)" and "\<And>line. \<not> P (Out Entity line)"
    and "\<And>line. \<not> P (Out KeyPhrasesHeader line)" and "\<And>line. \<not> P (Out KeyPhrase line)"
    and "\<And>line. \<not> P (Out Sentiment line)" and "\<And>line. \<not> P (Out Scores line)"
    and "\<And>line. \<not> P (Out Language line)"
  shows "filter P (fst (language_onwards w c text)) = []"
  unfolding language_onwards_def
  by (simp add: fst_bind snd_bind fst_print snd_print assms sentiment_onwards_filter
      split: sum.splits option.splits)

text \<open>The calls of a pass, slice by slice: an initial part of the five.\<close>

lemma calls_linked_onwards:
  "prefix (calls (fst (linked_onwards w c text lang)))
     [Call (RecognizeLinkedEntities [text] lang)]"
  unfolding linked_onwards_def
  by (simp add: fst_bind snd_bind calls_append calls_Cons calls_printers split: sum.splits)

lemma calls_entities_onwards:
  "prefix (calls (fst (entities_onwards w c text lang)))
     [Call (RecognizeEntities [text] lang), Call (RecognizeLinkedEntities [text] lang)]"
  unfolding entities_onwards_def
  by (simp add: fst_bind snd_bind calls_append calls_Cons calls_printers calls_linked_onwards
      split: sum.splits)

lemma calls_key_phrases_onwards:
  "prefix (calls (fst (key_phrases_onwards w c text lang)))
     [Call (ExtractKeyPhrases [text] lang), Call (RecognizeEntities [text] lang),
      Call (RecognizeLinkedEntities [text] lang)]"
  unfolding key_phrases_onwards_def
  by (simp add: fst_bind snd_bind calls_append calls_Cons calls_printers calls_entities_onwards
      split: sum.splits)

lemma calls_sentiment_onwards:
  "prefix (calls (fst (sentiment_onwards w c text lang)))
     [Call (AnalyzeSentiment [text] lang), Call (ExtractKeyPhrases [text] lang),
      Call (RecognizeEntities [text] lang), Call (RecognizeLinkedEntities [text] lang)]"
  unfolding sentiment_onwards_def
  by (simp add: fst_bind snd_bind fst_print snd_print calls_append calls_Cons
      calls_key_phrases_onwards split: sum.splits option.splits)

lemma calls_language_onwards:
  "prefix (calls (fst (language_onwards w c text)))
     (five_calls text
        (case detect_language w c [text] of
           Inl ex \<Rightarrow> []
         | Inr [] \<Rightarrow> []
         | Inr (DocumentError msg # rs) \<Rightarrow> []
         | Inr (Result d # rs) \<Rightarrow> iso6391_name (primary_language d)))"
  unfolding language_onwards_def five_calls_def
  by (simp add: fst_bind snd_bind fst_print snd_print calls_append calls_Cons
      calls_sentiment_onwards raise_def ret_def
      split: sum.splits option.splits list.splits doc.splits)

lemma calls_process_file_prefix:
  "prefix (calls (fst (process_file w c f))) (five_calls (file_text w f) (detected_code w c f))"
proof (cases "open_read w (path_join reviews_folder f)")
  case (Inl ex)
  then have "calls (fst (process_file w c f)) = []"
    unfolding process_file_slices
    by (simp add: fst_bind snd_bind fst_print snd_print calls_Cons split: option.splits)
  then show ?thesis by simp
next
  case (Inr tx)
  then have tx: "file_text w f = tx"
    by (simp add: file_text_def)
  have code: "detected_code w c f =
      (case detect_language w c [tx] of
         Inl ex \<Rightarrow> []
       | Inr [] \<Rightarrow> []
       | Inr (DocumentError msg # rs) \<Rightarrow> []
       | Inr (Result d # rs) \<Rightarrow> iso6391_name (primary_language d))"
    by (simp add: detected_code_def tx)
  have "calls (fst (process_file w c f)) = [] \<or>
      calls (fst (process_file w c f)) = calls (fst (language_onwards w c tx))"
    unfolding process_file_slices using Inr
    by (simp add: fst_bind snd_bind fst_print snd_print calls_Cons calls_append
        split: option.splits)
  then show ?thesis
    unfolding tx code using calls_language_onwards[of w c tx] by auto
qed

lemma calls_process_file_take:
  "\<exists>n. n \<le> 5 \<and>
     calls (fst (process_file w c f)) = take n (five_calls (file_text w f) (detected_code w c f))"
proof -
  from calls_process_file_prefix[of w c f] obtain zs where
    z: "five_calls (file_text w f) (detected_code w c f) = calls (fst (process_file w c f)) @ zs"
    by (auto simp: prefix_def)
  have "length (five_calls (file_text w f) (detected_code w c f)) = 5"
    by (simp add: five_calls_def)
  with z have "length (calls (fst (process_file w c f))) \<le> 5"
    by simp
  moreover have "calls (fst (process_file w c f)) =
      take (length (calls (fst (process_file w c f))))
        (five_calls (file_text w f) (detected_code w c f))"
    by (subst z) simp
  ultimately show ?thesis by blast
qed

lemma language_onwards_head:
  "\<exists>rest. fst (language_onwards w c text) = Call (DetectLanguage [text]) # rest"
  by (simp add: language_onwards_def fst_bind)

text \<open>
  Claim C10. A pass that issues any remote call has read the file, and its events begin
  with the header line, the raw text and then the language-detection call: both lines are
  written before the first call, and stay whatever the calls do.
\<close>

theorem header_and_text_before_first_call:
  assumes "Call rq \<in> set (fst (process_file w c f))"
  shows "\<exists>text rest. open_read w (path_join reviews_folder f) = Inr text \<and>
     fst (process_file w c f) =
       Out Header (header_line f) # Out RawText (NL # text) # Call (DetectLanguage [text]) # rest"
proof -
  have h: "stdout_write w (header_line f) = None"
  proof (rule ccontr)
    assume "stdout_write w (header_line f) \<noteq> None"
    then have "fst (process_file w c f) = []"
      unfolding process_file_slices by (auto simp: fst_bind snd_bind fst_print snd_print)
    with assms show False by simp
  qed
  obtain tx where r: "open_read w (path_join reviews_folder f) = Inr tx"
  proof (cases "open_read w (path_join reviews_folder f)")
    case (Inl ex)
    with h have "fst (process_file w c f) = [Out Header (header_line f)]"
      unfolding process_file_slices by (simp add: fst_bind snd_bind fst_print snd_print)
    with assms show ?thesis by simp
  next
    case (Inr tx)
    then show ?thesis by (rule that)
  qed
  have x: "stdout_write w (NL # tx) = None"
  proof (rule ccontr)
    assume "stdout_write w (NL # tx) \<noteq> None"
    with h r have "fst (process_file w c f) = [Out Header (header_line f)]"
      unfolding process_file_slices by (auto simp: fst_bind snd_bind fst_print snd_print)
    with assms show False by simp
  qed
  from h r x have t: "fst (process_file w c f) =
      Out Header (header_line f) # Out RawText (NL # tx) # fst (language_onwards w c tx)"
    unfolding process_file_slices by (simp add: fst_bind snd_bind fst_print snd_print)
  from language_onwards_head[of w c tx] obtain rest where
    "fst (language_onwards w c tx) = Call (DetectLanguage [tx]) # rest"
    by blast
  with r t show ?thesis by simp
qed

text \<open>A pass whose key-phrase result is empty.\<close>

lemma key_phrases_onwards_empty:
  assumes "extract_key_phrases w c [text] lang = Inr (Result p # rs')" and "key_phrases p = []"
  shows "filter (\<lambda>ev. site_of ev = Some KeyPhrasesHeader \<or> site_of ev = Some KeyPhrase)
     (fst (key_phrases_onwards w c text lang)) = []"
  unfolding key_phrases_onwards_def
  by (simp add: fst_bind snd_bind assms print_key_phrases_Nil entities_onwards_filter ret_def)

lemma sentiment_onwards_empty:
  assumes "extract_key_phrases w c [text] lang = Inr (Result p # rs')" and "key_phrases p = []"
  shows "filter (\<lambda>ev. site_of ev = Some KeyPhrasesHeader \<or> site_of ev = Some KeyPhrase)
     (fst (sentiment_onwards w c text lang)) = []"
  unfolding sentiment_onwards_def
  by (simp add: fst_bind snd_bind fst_print snd_print key_phrases_onwards_empty[OF assms]
      split: sum.splits option.splits)

lemma key_phrase_filter_process_file:
  assumes "open_read w (path_join reviews_folder f) = Inr text"
    and "detect_language w c [text] = Inr (Result d # rs)"
    and "extract_key_phrases w c [text] (iso6391_name (primary_language d)) = Inr (Result p # rs')"
    and "key_phrases p = []"
  shows "filter (\<lambda>ev. site_of ev = Some KeyPhrasesHeader \<or> site_of ev = Some KeyPhrase)
     (fst (process_file w c f)) = []"
  unfolding process_file_slices language_onwards_def
  by (simp add: fst_bind snd_bind fst_print snd_print assms(1,2) ret_def
      sentiment_onwards_empty[OF assms(3,4)] split: option.splits)

text \<open>
  Claim C6. When the key-phrase result for a file is the empty list, the pass writes
  neither the "Key Phrases:" header nor a key-phrase line.
\<close>

theorem no_key_phrases_section_when_empty:
  assumes "open_read w (path_join reviews_folder f) = Inr text"
    and "detect_language w c [text] = Inr (Result d # rs)"
    and "extract_key_phrases w c [text] (iso6391_name (primary_language d)) = Inr (Result p # rs')"
    and "key_phrases p = []"
  shows "Some KeyPhrasesHeader \<notin> set (map site_of (fst (process_file w c f))) \<and>
         Some KeyPhrase \<notin> set (map site_of (fst (process_file w c f)))"
  using key_phrase_filter_process_file[OF assms]
  by (auto simp: filter_empty_conv)

subsection \<open>Rendering of the scores\<close>

lemma digit_cases: "d < 10 \<Longrightarrow> d = 0 \<or> d = 1 \<or> d = 2 \<or> d = 3 \<or> d = 4 \<or> d = 5 \<or> d = 6 \<or> d = 7 \<or> d = 8 \<or> d = (9::nat)"
  by arith

lemma is_digit_digit: "d < 10 \<Longrightarrow> is_digit (digit d)"
  using digit_cases[of d] by (auto simp: is_digit_def digit_def)

lemma digit_value_digit: "d < 10 \<Longrightarrow> digit_value (digit d) = d"
  using digit_cases[of d] by (auto simp: digit_value_def digit_def)

lemma digit_not_minus: "is_digit c \<Longrightarrow> c \<noteq> CHR ''-''"
  by (auto simp: is_digit_def)

lemma str_nat_digits: "list_all is_digit (str_nat n)"
  by (induction n rule: str_nat.induct) (subst str_nat.simps, simp add: is_digit_digit)

lemma str_nat_nonempty: "str_nat n \<noteq> []"
  by (subst str_nat.simps) simp

lemma numeral_value_append:
  "numeral_value (xs @ [c]) = 10 * numeral_value xs + digit_value c"
  by (simp add: numeral_value_def)

lemma numeral_value_str_nat: "numeral_value (str_nat n) = n"
proof (induction n rule: str_nat.induct)
  case (1 n)
  show ?case
  proof (cases "n < 10")
    case True
    then show ?thesis
      by (subst str_nat.simps) (simp add: numeral_value_def digit_value_digit)
  next
    case False
    with 1 have "numeral_value (str_nat (n div 10)) = n div 10" by simp
    with False show ?thesis
      by (subst str_nat.simps) (simp add: numeral_value_append digit_value_digit)
  qed
qed

lemma fixed2_not_minus: "\<exists>c r. fixed2 n = c # r \<and> c \<noteq> CHR ''-''"
proof -
  obtain c r where cr: "str_nat (n div 100) = c # r"
    using str_nat_nonempty[of "n div 100"] by (cases "str_nat (n div 100)") auto
  with str_nat_digits[of "n div 100"] have "is_digit c" by simp
  with cr show ?thesis by (auto simp: fixed2_def dest: digit_not_minus)
qed

lemma two_decimal_digits_fixed2: "two_decimal_digits (sign_str s @ fixed2 n)"
proof -
  obtain c r where cr: "fixed2 n = c # r" "c \<noteq> CHR ''-''"
    using fixed2_not_minus by blast
  have body: "(case sign_str s @ fixed2 n of [] \<Rightarrow> [] | c # r \<Rightarrow> if c = CHR ''-'' then r else sign_str s @ fixed2 n) = fixed2 n"
    using cr by (cases s) (auto simp: sign_str_def)
  have len: "length (fixed2 n) = length (str_nat (n div 100)) + 3"
    by (simp add: fixed2_def)
  have "n mod 100 div 10 < 10" "n mod 10 < 10" by auto
  then have d: "is_digit (digit (n mod 100 div 10))" "is_digit (digit (n mod 10))"
    by (auto intro: is_digit_digit)
  show ?thesis
    unfolding two_decimal_digits_def body Let_def len
    using d str_nat_digits[of "n div 100"] str_nat_nonempty[of "n div 100"]
    by (simp add: fixed2_def nth_append Suc_le_eq)
qed

lemma decimal_value_fixed2: "decimal_value (sign_str s @ fixed2 n) = (if s then - 1 else 1) * (of_nat n / 100)"
proof -
  obtain c r where cr: "fixed2 n = c # r" "c \<noteq> CHR ''-''"
    using fixed2_not_minus by blast
  have neg: "(case sign_str s @ fixed2 n of [] \<Rightarrow> False | c # r \<Rightarrow> c = CHR ''-'') = s"
    using cr by (cases s) (auto simp: sign_str_def)
  have body: "(if s then tl (sign_str s @ fixed2 n) else sign_str s @ fixed2 n) = fixed2 n"
    by (auto simp: sign_str_def)
  have len: "length (fixed2 n) = length (str_nat (n div 100)) + 3"
    by (simp add: fixed2_def)
  have lt: "n mod 100 div 10 < 10" "n mod 10 < 10" by auto
  have "numeral_value [digit (n mod 100 div 10), digit (n mod 10)] =
      10 * (n mod 100 div 10) + n mod 10"
    using lt by (simp add: numeral_value_def digit_value_digit)
  also have "\<dots> = 10 * (n mod 100 div 10) + n mod 100 mod 10"
    by (simp add: mod_mod_cancel)
  also have "\<dots> = n mod 100"
    by (rule mult_div_mod_eq)
  finally have frac: "numeral_value [digit (n mod 100 div 10), digit (n mod 10)] = n mod 100" .
  have "(of_nat (n div 100) :: rat) + of_nat (n mod 100) / 100 = of_nat n / 100"
  proof -
    have "n = 100 * (n div 100) + n mod 100" by presburger
    then have "(of_nat n :: rat) = of_nat (100 * (n div 100) + n mod 100)" by (rule arg_cong)
    also have "\<dots> = 100 * of_nat (n div 100) + of_nat (n mod 100)"
      by (simp only: of_nat_add of_nat_mult of_nat_numeral)
    finally have "(of_nat n :: rat) = 100 * of_nat (n div 100) + of_nat (n mod 100)" .
    then show ?thesis by simp
  qed
  then show ?thesis
    unfolding decimal_value_def neg body Let_def len
    by (simp add: fixed2_def numeral_value_str_nat frac)
qed

lemma hundredths_le:
  assumes "in_unit_interval (Finite s m e)"
  shows "hundredths m e \<le> 100"
proof (cases "0 \<le> e")
  case True
  show ?thesis
  proof (cases s)
    case True
    with \<open>0 \<le> e\<close> assms have "(of_nat (m * 2 ^ nat e) :: rat) \<le> 0"
      by (simp add: in_unit_interval_def)
    then have "m * 2 ^ nat e = 0" by (simp only: of_nat_le_0_iff)
    with \<open>0 \<le> e\<close> show ?thesis by (simp add: hundredths_def)
  next
    case False
    with \<open>0 \<le> e\<close> assms have "(of_nat (m * 2 ^ nat e) :: rat) \<le> of_nat 1"
      by (simp add: in_unit_interval_def)
    then have "m * 2 ^ nat e \<le> 1" by (simp only: of_nat_le_iff)
    with \<open>0 \<le> e\<close> show ?thesis by (simp add: hundredths_def)
  qed
next
  case neg: False
  define den :: nat where "den = 2 ^ nat (- e)"
  have den: "0 < den" by (simp add: den_def)
  have hd: "hundredths m e =
      (if den < 2 * (m * 100 mod den) \<or> (2 * (m * 100 mod den) = den \<and> odd (m * 100 div den))
       then m * 100 div den + 1 else m * 100 div den)"
    using neg by (simp add: hundredths_def Let_def den_def)
  have "m \<le> den"
  proof (cases s)
    case True
    with neg assms have "(of_nat m :: rat) / of_nat den \<le> 0"
      by (simp add: in_unit_interval_def den_def)
    with den have "(of_nat m :: rat) \<le> 0" by (simp add: divide_le_0_iff)
    then show ?thesis by simp
  next
    case False
    with neg assms have "(of_nat m :: rat) / of_nat den \<le> 1"
      by (simp add: in_unit_interval_def den_def)
    with den have "(of_nat m :: rat) \<le> of_nat den" by (simp add: divide_le_eq)
    then show ?thesis by (simp only: of_nat_le_iff)
  qed
  then have num: "m * 100 \<le> 100 * den" by simp
  then have q: "m * 100 div den \<le> 100"
  proof -
    have "m * 100 div den \<le> 100 * den div den" using num by (rule div_le_mono)
    with den show ?thesis by simp
  qed
  show ?thesis
  proof (cases "m * 100 div den = 100")
    case True
    have "m * 100 = den * (m * 100 div den) + m * 100 mod den" by simp
    with True num have "m * 100 mod den = 0" by simp
    with True den show ?thesis by (simp add: hd)
  next
    case False
    with q have "m * 100 div den < 100" by simp
    then show ?thesis by (simp add: hd)
  qed
qed

lemma hundredths_negative_zero:
  assumes "in_unit_interval (Finite True m e)"
  shows "hundredths m e = 0"
proof -
  have "m = 0"
  proof (cases "0 \<le> e")
    case True
    with assms have "(of_nat (m * 2 ^ nat e) :: rat) \<le> 0"
      by (simp add: in_unit_interval_def)
    then have "m * 2 ^ nat e = 0" by (simp only: of_nat_le_0_iff)
    then show ?thesis by simp
  next
    case False
    define den :: nat where "den = 2 ^ nat (- e)"
    have den: "0 < den" by (simp add: den_def)
    from False assms have "(of_nat m :: rat) / of_nat den \<le> 0"
      by (simp add: in_unit_interval_def den_def)
    with den have "(of_nat m :: rat) \<le> 0" by (simp add: divide_le_0_iff)
    then show ?thesis by simp
  qed
  then show ?thesis by (simp add: hundredths_def Let_def)
qed

text \<open>
  Claim C7, as the code has it. A finite score is written with exactly two decimal
  digits; a score whose value lies in [0, 1] is written with exactly two decimal digits
  and the number written lies in [0.00, 1.00].
\<close>

theorem scores_two_decimal_digits:
  "(is_finite x \<longrightarrow> two_decimal_digits (format_2f x)) \<and>
   (in_unit_interval x \<longrightarrow>
      two_decimal_digits (format_2f x) \<and>
      0 \<le> decimal_value (format_2f x) \<and> decimal_value (format_2f x) \<le> 1)"
proof (cases x)
  case (Finite s m e)
  have "in_unit_interval x \<Longrightarrow>
      0 \<le> decimal_value (format_2f x) \<and> decimal_value (format_2f x) \<le> 1"
  proof (cases s)
    case True
    assume "in_unit_interval x"
    with True Finite have "hundredths m e = 0" using hundredths_negative_zero by simp
    with Finite show ?thesis by (simp add: decimal_value_fixed2)
  next
    case False
    assume "in_unit_interval x"
    with Finite have "hundredths m e \<le> 100" using hundredths_le by simp
    then have "(of_nat (hundredths m e) :: rat) \<le> of_nat 100" by (simp only: of_nat_le_iff)
    with False Finite show ?thesis by (simp add: decimal_value_fixed2)
  qed
  with Finite show ?thesis by (simp add: two_decimal_digits_fixed2)
qed (simp_all add: in_unit_interval_def)

text \<open>The format against the specification of two decimal places.\<close>

lemma unsigned_part_fixed2: "unsigned_part (sign_str s @ fixed2 n) = fixed2 n"
proof -
  obtain c r where cr: "fixed2 n = c # r" "c \<noteq> CHR ''-''"
    using fixed2_not_minus by blast
  then show ?thesis by (cases s) (auto simp: unsigned_part_def sign_str_def)
qed

lemma starts_with_minus_fixed2: "starts_with_minus (sign_str s @ fixed2 n) = s"
proof -
  obtain c r where cr: "fixed2 n = c # r" "c \<noteq> CHR ''-''"
    using fixed2_not_minus by blast
  then show ?thesis by (cases s) (auto simp: starts_with_minus_def sign_str_def)
qed

lemma written_hundredths_fixed2: "written_hundredths (sign_str s @ fixed2 n) = n"
proof -
  have len: "length (fixed2 n) = length (str_nat (n div 100)) + 3"
    by (simp add: fixed2_def)
  have lt: "n mod 100 div 10 < 10" "n mod 10 < 10" by auto
  have "numeral_value [digit (n mod 100 div 10), digit (n mod 10)] =
      10 * (n mod 100 div 10) + n mod 10"
    using lt by (simp add: numeral_value_def digit_value_digit)
  also have "\<dots> = 10 * (n mod 100 div 10) + n mod 100 mod 10"
    by (simp add: mod_mod_cancel)
  also have "\<dots> = n mod 100"
    by (rule mult_div_mod_eq)
  finally have frac: "numeral_value [digit (n mod 100 div 10), digit (n mod 10)] = n mod 100" .
  have "written_hundredths (sign_str s @ fixed2 n) = 100 * (n div 100) + n mod 100"
    unfolding written_hundredths_def unsigned_part_fixed2 Let_def len
    by (simp add: fixed2_def numeral_value_str_nat frac)
  then show ?thesis by simp
qed

lemma digit_nonzero: "0 < d \<Longrightarrow> d < 10 \<Longrightarrow> is_nonzero_digit (digit d)"
  using digit_cases[of d] by (auto simp: digit_def is_nonzero_digit_def)

lemma str_nat_leading: "0 < n \<Longrightarrow> \<exists>c r. str_nat n = c # r \<and> is_nonzero_digit c"
proof (induction n rule: str_nat.induct)
  case (1 n)
  show ?case
  proof (cases "n < 10")
    case True
    with 1(2) show ?thesis
      by (subst str_nat.simps) (simp add: digit_nonzero)
  next
    case False
    then have "0 < n div 10" by simp
    with 1(1) False obtain c r where "str_nat (n div 10) = c # r" "is_nonzero_digit c"
      by blast
    with False show ?thesis
      by (subst str_nat.simps) simp
  qed
qed

lemma no_leading_zero_fixed2: "no_leading_zero (sign_str s @ fixed2 n)"
proof (cases "n div 100 < 10")
  case True
  then have "str_nat (n div 100) = [digit (n div 100)]"
    by (subst str_nat.simps) simp
  then have "length (fixed2 n) = 4"
    by (simp add: fixed2_def)
  then show ?thesis
    by (simp add: no_leading_zero_def unsigned_part_fixed2)
next
  case False
  then have "0 < n div 100" by simp
  from str_nat_leading[OF this] obtain c r where
    "str_nat (n div 100) = c # r" "is_nonzero_digit c"
    by blast
  then show ?thesis
    unfolding no_leading_zero_def unsigned_part_fixed2 by (simp add: fixed2_def)
qed

lemma round_half_even_hundredths: "round_half_even (100 * magnitude m e) (hundredths m e)"
proof (cases "0 \<le> e")
  case True
  then have "(of_nat (hundredths m e) :: rat) = 100 * magnitude m e"
    by (simp add: hundredths_def magnitude_def)
  then show ?thesis by (simp add: round_half_even_def)
next
  case neg: False
  define den :: nat where "den = 2 ^ nat (- e)"
  define q where "q = m * 100 div den"
  define r where "r = m * 100 mod den"
  define x :: rat where "x = of_nat r / of_nat den"
  have den: "0 < den" by (simp add: den_def)
  have r: "r < den" using den by (simp add: r_def)
  have hd: "hundredths m e = (if den < 2 * r \<or> (2 * r = den \<and> odd q) then q + 1 else q)"
    using neg by (simp add: hundredths_def Let_def den_def q_def r_def)
  have "m * 100 = q * den + r"
    by (simp add: q_def r_def)
  then have "(of_nat (m * 100) :: rat) = of_nat (q * den + r)"
    by (rule arg_cong)
  then have "(100 :: rat) * of_nat m = of_nat q * of_nat den + of_nat r"
    by (simp add: mult.commute)
  then have "(100 * of_nat m) / (of_nat den :: rat) = of_nat q + x"
    using den by (simp add: x_def field_simps)
  then have target: "100 * magnitude m e = of_nat q + x"
    using neg by (simp add: magnitude_def den_def)
  have x0: "0 \<le> x" by (simp add: x_def)
  have x1: "x < 1" using r den by (simp add: x_def)
  have lt: "x < 1 / 2 \<longleftrightarrow> 2 * r < den"
  proof -
    have "x < 1 / 2 \<longleftrightarrow> (of_nat (2 * r) :: rat) < of_nat den"
      using den by (simp add: x_def field_simps)
    also have "\<dots> \<longleftrightarrow> 2 * r < den" by (simp only: of_nat_less_iff)
    finally show ?thesis .
  qed
  have gt: "1 / 2 < x \<longleftrightarrow> den < 2 * r"
  proof -
    have "1 / 2 < x \<longleftrightarrow> (of_nat den :: rat) < of_nat (2 * r)"
      using den by (simp add: x_def field_simps)
    also have "\<dots> \<longleftrightarrow> den < 2 * r" by (simp only: of_nat_less_iff)
    finally show ?thesis .
  qed
  have eq: "x = 1 / 2 \<longleftrightarrow> 2 * r = den"
    using lt gt by (metis less_irrefl linorder_neqE_linordered_idom linorder_neqE_nat)
  show ?thesis
  proof (cases "den < 2 * r \<or> (2 * r = den \<and> odd q)")
    case True
    then have n: "hundredths m e = q + 1" by (simp add: hd)
    have d: "\<bar>of_nat (q + 1) - (of_nat q + x)\<bar> = 1 - x"
      using x1 by simp
    from True have "1 - x < 1 / 2 \<or> (1 - x = 1 / 2 \<and> even (q + 1))"
    proof
      assume "den < 2 * r"
      with gt have "1 / 2 < x" by simp
      then show ?thesis by simp
    next
      assume a: "2 * r = den \<and> odd q"
      with eq have "x = 1 / 2" by simp
      with a show ?thesis by simp
    qed
    then show ?thesis
      unfolding round_half_even_def target n d .
  next
    case False
    then have n: "hundredths m e = q" by (simp add: hd)
    have d: "\<bar>of_nat q - (of_nat q + x)\<bar> = x"
      using x0 by simp
    from False have le: "2 * r \<le> den" and ev: "2 * r = den \<Longrightarrow> even q"
      by auto
    have "x < 1 / 2 \<or> (x = 1 / 2 \<and> even q)"
    proof (cases "2 * r = den")
      case True
      with eq ev show ?thesis by simp
    next
      case False
      with le have "2 * r < den" by simp
      with lt show ?thesis by simp
    qed
    then show ?thesis
      unfolding round_half_even_def target n d .
  qed
qed

lemma format_2f_two_places: "two_places x (format_2f x)"
proof (cases x)
  case (Finite s m e)
  then show ?thesis
    by (simp add: two_decimal_digits_fixed2 starts_with_minus_fixed2 no_leading_zero_fixed2
        written_hundredths_fixed2 round_half_even_hundredths)
next
  case NaN
  then show ?thesis by simp
next
  case (Inf s)
  then show ?thesis by (simp add: sign_str_def)
qed

subsection \<open>The whole run\<close>

lemma headers_process_file:
  "headers (fst (process_file w c f)) =
     (if stdout_write w (header_line f) = None then [Out Header (header_line f)] else [])"
  unfolding process_file_slices headers_def
  by (simp add: fst_bind snd_bind fst_print snd_print language_onwards_filter
      split: sum.splits option.splits)




lemma try_block_success:
  assumes "startup w = Inr (c, files)" and "\<forall>g\<in>set files. snd (process_file w c g) = Inr ()"
  shows "try_block w = (concat (map (\<lambda>g. fst (process_file w c g)) files), Inr ())"
  using assms by (simp add: try_block_startup for_each_all_ok)

lemma try_block_failure:
  assumes "startup w = Inr (c, pre @ f # post)"
    and "\<forall>g\<in>set pre. snd (process_file w c g) = Inr ()"
    and "snd (process_file w c f) = Inl ex"
  shows "try_block w =
    (concat (map (\<lambda>g. fst (process_file w c g)) pre) @ fst (process_file w c f), Inl ex)"
proof -
  have "try_block w = for_each (process_file w c) (pre @ f # post)"
    using assms(1) by (simp add: try_block_startup)
  also have "\<dots> = (concat (map (\<lambda>g. fst (process_file w c g)) pre) @ fst (process_file w c f),
      Inl ex)"
    using assms(2,3) by (rule for_each_first_failure)
  finally show ?thesis .
qed


lemma calls_completed_passes:
  "\<forall>g\<in>set fs. snd (process_file w c g) = Inr () \<Longrightarrow>
   calls (concat (map (\<lambda>g. fst (process_file w c g)) fs)) =
     concat (map (\<lambda>g. five_calls (file_text w g) (detected_code w c g)) fs)"
  by (induction fs) (simp_all add: calls_Cons calls_append calls_process_file_Inr)

lemma calls_main: "calls (fst (main w)) = calls (fst (try_block w))"
  by (simp add: main_eq calls_append calls_Cons split: sum.splits option.splits)

lemma headers_main: "headers (fst (main w)) = headers (fst (try_block w))"
  by (simp add: main_eq headers_def split: sum.splits option.splits)

lemma headers_append: "headers (xs @ ys) = headers xs @ headers ys"
  by (simp add: headers_def)

lemma headers_completed_passes:
  "\<forall>g\<in>set fs. snd (process_file w c g) = Inr () \<Longrightarrow>
   headers (concat (map (\<lambda>g. fst (process_file w c g)) fs)) =
     map (\<lambda>g. Out Header (header_line g)) fs"
proof (induction fs)
  case Nil
  show ?case by (simp add: headers_def)
next
  case (Cons f fs)
  from Cons.prems have "snd (process_file w c f) = Inr ()" by simp
  from process_file_Inr[OF this] have "hd (fst (process_file w c f)) = Out Header (header_line f)"
    by auto
  then have "headers (fst (process_file w c f)) \<noteq> []"
    using process_file_Inr[OF \<open>snd (process_file w c f) = Inr ()\<close>]
    by (auto simp: headers_def)
  then have "headers (fst (process_file w c f)) = [Out Header (header_line f)]"
    by (simp add: headers_process_file split: if_splits)
  with Cons show ?case by (simp add: headers_append)
qed

lemma header_line_eq: "header_line f = NL # ''-------------'' @ NL # f"
  by (simp add: header_line_def)

text \<open>
  Claim C3. A pass that completes writes exactly one header line, the dashes and then
  the file's name; any pass writes that header line or, when standard output refuses it,
  none. When every pass completes, the header lines of the run are those of the listing,
  in its order; when a pass fails, they are those of the files before it, in order, and
  the failing pass's own.
\<close>

theorem headers_in_enumeration_order:
  assumes "startup w = Inr (c, files)"
  shows "(\<forall>f. snd (process_file w c f) = Inr () \<longrightarrow>
       headers (fst (process_file w c f)) = [Out Header (NL # ''-------------'' @ NL # f)]) \<and>
    (\<forall>f. headers (fst (process_file w c f)) =
       (if stdout_write w (NL # ''-------------'' @ NL # f) = None
        then [Out Header (NL # ''-------------'' @ NL # f)] else [])) \<and>
    ((\<forall>f\<in>set files. snd (process_file w c f) = Inr ()) \<longrightarrow>
       headers (fst (main w)) = map (\<lambda>f. Out Header (NL # ''-------------'' @ NL # f)) files) \<and>
    (\<forall>pre f post ex.
       files = pre @ f # post \<and> (\<forall>g\<in>set pre. snd (process_file w c g) = Inr ()) \<and>
       snd (process_file w c f) = Inl ex \<longrightarrow>
       headers (fst (main w)) =
         map (\<lambda>g. Out Header (NL # ''-------------'' @ NL # g)) pre @
         headers (fst (process_file w c f)))"
proof (intro conjI allI impI)
  fix f
  assume "snd (process_file w c f) = Inr ()"
  then have "headers (concat (map (\<lambda>g. fst (process_file w c g)) [f])) =
      map (\<lambda>g. Out Header (header_line g)) [f]"
    by (intro headers_completed_passes) simp
  then show "headers (fst (process_file w c f)) = [Out Header (NL # ''-------------'' @ NL # f)]"
    by (simp add: header_line_eq)
next
  fix f
  show "headers (fst (process_file w c f)) =
       (if stdout_write w (NL # ''-------------'' @ NL # f) = None
        then [Out Header (NL # ''-------------'' @ NL # f)] else [])"
    using headers_process_file[of w c f] by (simp add: header_line_eq)
next
  assume "\<forall>f\<in>set files. snd (process_file w c f) = Inr ()"
  then show "headers (fst (main w)) =
      map (\<lambda>f. Out Header (NL # ''-------------'' @ NL # f)) files"
    using assms
    by (simp add: headers_main try_block_success headers_completed_passes header_line_eq)
next
  fix pre f post ex
  assume a: "files = pre @ f # post \<and> (\<forall>g\<in>set pre. snd (process_file w c g) = Inr ()) \<and>
       snd (process_file w c f) = Inl ex"
  with assms have s: "startup w = Inr (c, pre @ f # post)" by simp
  from a have p: "\<forall>g\<in>set pre. snd (process_file w c g) = Inr ()"
    and x: "snd (process_file w c f) = Inl ex" by simp_all
  show "headers (fst (main w)) =
         map (\<lambda>g. Out Header (NL # ''-------------'' @ NL # g)) pre @
         headers (fst (process_file w c f))"
    using p by (simp add: headers_main try_block_failure[OF s p x] headers_append
        headers_completed_passes header_line_eq)
qed

text \<open>
  Claim C4, as the code has it. A pass that completes has made exactly five remote calls,
  each with the file's text as its only document: language detection first, then
  sentiment analysis, key-phrase extraction, entity recognition and linked-entity
  recognition, each with the ISO 639-1 code of the first result of the language
  detection. When every pass completes, the calls of the run are these five for each
  file of the listing, in its order. When a pass fails, the calls of the run are the five
  of each file before it, then an initial part of the failing file's five, and none for
  the files after it.
\<close>

theorem remote_call_sequence:
  assumes "startup w = Inr (c, files)"
  shows "(\<forall>f. snd (process_file w c f) = Inr () \<longrightarrow>
       open_read w (path_join reviews_folder f) = Inr (file_text w f) \<and>
       (\<exists>d rs. detect_language w c [file_text w f] = Inr (Result d # rs) \<and>
          detected_code w c f = iso6391_name (primary_language d)) \<and>
       calls (fst (process_file w c f)) = five_calls (file_text w f) (detected_code w c f)) \<and>
    ((\<forall>f\<in>set files. snd (process_file w c f) = Inr ()) \<longrightarrow>
       calls (fst (main w)) =
         concat (map (\<lambda>f. five_calls (file_text w f) (detected_code w c f)) files)) \<and>
    (\<forall>pre f post ex.
       files = pre @ f # post \<and> (\<forall>g\<in>set pre. snd (process_file w c g) = Inr ()) \<and>
       snd (process_file w c f) = Inl ex \<longrightarrow>
       (\<exists>n. n \<le> 5 \<and>
          calls (fst (main w)) =
            concat (map (\<lambda>g. five_calls (file_text w g) (detected_code w c g)) pre) @
            take n (five_calls (file_text w f) (detected_code w c f))))"
proof -
  have A: "\<forall>f. snd (process_file w c f) = Inr () \<longrightarrow>
       open_read w (path_join reviews_folder f) = Inr (file_text w f) \<and>
       (\<exists>d rs. detect_language w c [file_text w f] = Inr (Result d # rs) \<and>
          detected_code w c f = iso6391_name (primary_language d)) \<and>
       calls (fst (process_file w c f)) = five_calls (file_text w f) (detected_code w c f)"
  proof (intro allI impI)
    fix f
    assume "snd (process_file w c f) = Inr ()"
    then show "open_read w (path_join reviews_folder f) = Inr (file_text w f) \<and>
       (\<exists>d rs. detect_language w c [file_text w f] = Inr (Result d # rs) \<and>
          detected_code w c f = iso6391_name (primary_language d)) \<and>
       calls (fst (process_file w c f)) = five_calls (file_text w f) (detected_code w c f)"
      by (rule calls_process_file_Inr)
  qed
  have B: "(\<forall>f\<in>set files. snd (process_file w c f) = Inr ()) \<longrightarrow>
       calls (fst (main w)) =
         concat (map (\<lambda>f. five_calls (file_text w f) (detected_code w c f)) files)"
    using assms by (simp add: calls_main try_block_success calls_completed_passes)
  have C: "\<forall>pre f post ex.
       files = pre @ f # post \<and> (\<forall>g\<in>set pre. snd (process_file w c g) = Inr ()) \<and>
       snd (process_file w c f) = Inl ex \<longrightarrow>
       (\<exists>n. n \<le> 5 \<and>
          calls (fst (main w)) =
            concat (map (\<lambda>g. five_calls (file_text w g) (detected_code w c g)) pre) @
            take n (five_calls (file_text w f) (detected_code w c f)))"
  proof (intro allI impI)
    fix pre f post ex
    assume a: "files = pre @ f # post \<and> (\<forall>g\<in>set pre. snd (process_file w c g) = Inr ()) \<and>
         snd (process_file w c f) = Inl ex"
    with assms have s: "startup w = Inr (c, pre @ f # post)" by simp
    from a have p: "\<forall>g\<in>set pre. snd (process_file w c g) = Inr ()"
      and x: "snd (process_file w c f) = Inl ex" by simp_all
    from calls_process_file_take[of w c f] obtain n where
      n: "n \<le> 5" "calls (fst (process_file w c f)) =
        take n (five_calls (file_text w f) (detected_code w c f))"
      by blast
    have "calls (fst (main w)) =
        concat (map (\<lambda>g. five_calls (file_text w g) (detected_code w c g)) pre) @
        take n (five_calls (file_text w f) (detected_code w c f))"
      using p by (simp add: calls_main try_block_failure[OF s p x] calls_append
          calls_completed_passes n(2)[symmetric])
    with n(1) show "\<exists>n. n \<le> 5 \<and>
            calls (fst (main w)) =
              concat (map (\<lambda>g. five_calls (file_text w g) (detected_code w c g)) pre) @
              take n (five_calls (file_text w f) (detected_code w c f))"
      by blast
  qed
  show ?thesis by (rule conjI[OF A conjI[OF B C]])
qed

text \<open>
  Claim C2, as the code has it. For a file whose pass completes, the lines written are,
  in this order: the header with the file name, the raw text, the name of the detected
  language, the sentiment label, the three confidence scores, each formatted to two
  decimal places when it is a finite number (a NaN or an infinity is written \<open>nan\<close>,
  \<open>inf\<close> or \<open>-inf\<close>), then the key phrases, the entities as "text (category)" and the
  linked entities as "name: url", each of the three sections only if it has an element.
  The values are the first results the service returned for the file's text and the
  detected language's ISO code.
\<close>

theorem process_file_output_order:
  assumes "snd (process_file w c f) = Inr u"
  shows "\<exists>text d s p e l rs1 rs2 rs3 rs4 rs5 pos neg neu.
    open_read w (path_join reviews_folder f) = Inr text \<and>
    detect_language w c [text] = Inr (Result d # rs1) \<and>
    analyze_sentiment w c [text] (iso6391_name (primary_language d)) = Inr (Result s # rs2) \<and>
    extract_key_phrases w c [text] (iso6391_name (primary_language d)) = Inr (Result p # rs3) \<and>
    recognize_entities w c [text] (iso6391_name (primary_language d)) = Inr (Result e # rs4) \<and>
    recognize_linked_entities w c [text] (iso6391_name (primary_language d)) =
      Inr (Result l # rs5) \<and>
    two_places (positive (confidence_scores s)) pos \<and>
    two_places (negative (confidence_scores s)) neg \<and>
    two_places (neutral (confidence_scores s)) neu \<and>
    outputs (fst (process_file w c f)) =
      [Out Header (NL # ''-------------'' @ NL # f), Out RawText (NL # text),
       Out Language (NL # ''Language: '' @ name (primary_language d)),
       Out Sentiment (NL # ''Sentiment: '' @ sentiment s),
       Out Scores (''Scores: Positive='' @ pos @ '', Negative='' @ neg @ '', Neutral='' @ neu)] @
      key_phrases_section (key_phrases p) @
      entities_section (entities e) @
      linked_entities_section (linked_entities l)"
proof -
  from process_file_Inr[OF assms] obtain tx d s p e l rs1 rs2 rs3 rs4 rs5 where
    h: "open_read w (path_join reviews_folder f) = Inr tx"
      "detect_language w c [tx] = Inr (Result d # rs1)"
      "analyze_sentiment w c [tx] (iso6391_name (primary_language d)) = Inr (Result s # rs2)"
      "extract_key_phrases w c [tx] (iso6391_name (primary_language d)) = Inr (Result p # rs3)"
      "recognize_entities w c [tx] (iso6391_name (primary_language d)) = Inr (Result e # rs4)"
      "recognize_linked_entities w c [tx] (iso6391_name (primary_language d)) =
        Inr (Result l # rs5)"
    and t: "fst (process_file w c f) =
      [Out Header (header_line f), Out RawText (NL # tx), Call (DetectLanguage [tx]),
       Out Language (NL # ''Language: '' @ name (primary_language d)),
       Call (AnalyzeSentiment [tx] (iso6391_name (primary_language d))),
       Out Sentiment (NL # ''Sentiment: '' @ sentiment s),
       Out Scores (scores_line (confidence_scores s)),
       Call (ExtractKeyPhrases [tx] (iso6391_name (primary_language d)))] @
      key_phrases_section (key_phrases p) @
      [Call (RecognizeEntities [tx] (iso6391_name (primary_language d)))] @
      entities_section (entities e) @
      [Call (RecognizeLinkedEntities [tx] (iso6391_name (primary_language d)))] @
      linked_entities_section (linked_entities l)"
    by blast
  have o: "outputs (fst (process_file w c f)) =
      [Out Header (NL # ''-------------'' @ NL # f), Out RawText (NL # tx),
       Out Language (NL # ''Language: '' @ name (primary_language d)),
       Out Sentiment (NL # ''Sentiment: '' @ sentiment s),
       Out Scores (''Scores: Positive='' @ format_2f (positive (confidence_scores s)) @
                   '', Negative='' @ format_2f (negative (confidence_scores s)) @
                   '', Neutral='' @ format_2f (neutral (confidence_scores s)))] @
      key_phrases_section (key_phrases p) @
      entities_section (entities e) @
      linked_entities_section (linked_entities l)"
    unfolding t
    by (simp add: outputs_append outputs_Cons outputs_sections scores_line_def header_line_def)
  have "two_places (positive (confidence_scores s)) (format_2f (positive (confidence_scores s)))"
    "two_places (negative (confidence_scores s)) (format_2f (negative (confidence_scores s)))"
    "two_places (neutral (confidence_scores s)) (format_2f (neutral (confidence_scores s)))"
    by (rule format_2f_two_places)+
  with h o show ?thesis by blast
qed










subsection \<open>Runs of the stub worlds\<close>

lemmas run_defs = main_def try_block_def startup_def process_file_def bind_def print_def
  lift_def remote_def ret_def raise_def Let_def header_line_def path_join_def reviews_folder_def
  print_key_phrases_def print_entities_def print_linked_entities_def entity_line_def
  linked_entity_line_def english_def mostly_positive_def no_such_file_def network_error_def

lemmas world_defs = stub_world_def failing_world_def interrupted_world_def
  interrupted_read_world_def second_run_world_def permuted_world_def nan_world_def
  sysexit_world_def named_world_def

lemma scores_line_mostly_positive:
  "scores_line \<lparr>positive = Finite False 7 (- 3), negative = Finite False 3 (- 5),
                 neutral = Finite False 2 (- 6)\<rparr> =
   ''Scores: Positive=0.88, Negative=0.09, Neutral=0.03''"
  by code_simp

lemma scores_line_not_finite:
  "scores_line \<lparr>positive = NaN, negative = Inf False, neutral = Inf True\<rparr> =
   ''Scores: Positive=nan, Negative=inf, Neutral=-inf''"
  by code_simp

lemma startup_stub_world: "startup stub_world = Inr ((), [''a.txt'', ''b.txt'', ''c.txt''])"
  by (simp add: run_defs world_defs)

lemma startup_failing_world: "startup failing_world = Inr ((), [''a.txt'', ''b.txt'', ''c.txt''])"
  by (simp add: run_defs world_defs)



lemma startup_named_world:
  "startup named_world = Inr ((), [''first-review.txt'', ''b.txt''])"
  by (simp add: run_defs world_defs)


lemma pass_a_stub_world:
  "process_file stub_world () ''a.txt'' =
     ([Out Header (NL # ''-------------'' @ NL # ''a.txt''), Out RawText (NL # ''Good hotel.''),
       Call (DetectLanguage [''Good hotel.'']), Out Language (NL # ''Language: English''),
       Call (AnalyzeSentiment [''Good hotel.''] ''en''),
       Out Sentiment (NL # ''Sentiment: positive''),
       Out Scores ''Scores: Positive=0.88, Negative=0.09, Neutral=0.03'',
       Call (ExtractKeyPhrases [''Good hotel.''] ''en''),
       Out KeyPhrasesHeader (NL # ''Key Phrases:''), Out KeyPhrase (TAB # ''hotel''),
       Call (RecognizeEntities [''Good hotel.''] ''en''),
       Out EntitiesHeader (NL # ''Entities:''), Out Entity (TAB # ''hotel (Location)''),
       Call (RecognizeLinkedEntities [''Good hotel.''] ''en''),
       Out LinkedEntitiesHeader (NL # ''Linked Entities:''),
       Out LinkedEntity (TAB # ''Hotel: https://w/Hotel'')], Inr ())"
  by (simp add: run_defs world_defs scores_line_mostly_positive)

lemma pass_b_stub_world:
  "process_file stub_world () ''b.txt'' =
     ([Out Header (NL # ''-------------'' @ NL # ''b.txt''), Out RawText (NL # ''Bad.''),
       Call (DetectLanguage [''Bad.'']), Out Language (NL # ''Language: English''),
       Call (AnalyzeSentiment [''Bad.''] ''en''),
       Out Sentiment (NL # ''Sentiment: positive''),
       Out Scores ''Scores: Positive=0.88, Negative=0.09, Neutral=0.03'',
       Call (ExtractKeyPhrases [''Bad.''] ''en''),
       Call (RecognizeEntities [''Bad.''] ''en''),
       Call (RecognizeLinkedEntities [''Bad.''] ''en'')], Inr ())"
  by (simp add: run_defs world_defs scores_line_mostly_positive)

lemma pass_c_stub_world:
  "process_file stub_world () ''c.txt'' =
     ([Out Header (NL # ''-------------'' @ NL # ''c.txt''), Out RawText (NL # ''Fine.''),
       Call (DetectLanguage [''Fine.'']), Out Language (NL # ''Language: English''),
       Call (AnalyzeSentiment [''Fine.''] ''en''),
       Out Sentiment (NL # ''Sentiment: positive''),
       Out Scores ''Scores: Positive=0.88, Negative=0.09, Neutral=0.03'',
       Call (ExtractKeyPhrases [''Fine.''] ''en''),
       Call (RecognizeEntities [''Fine.''] ''en''),
       Call (RecognizeLinkedEntities [''Fine.''] ''en'')], Inr ())"
  by (simp add: run_defs world_defs scores_line_mostly_positive)

lemma pass_a_failing_world:
  "process_file failing_world () ''a.txt'' = process_file stub_world () ''a.txt''"
  by (simp add: run_defs world_defs)

lemma pass_b_failing_world:
  "process_file failing_world () ''b.txt'' =
     ([Out Header (NL # ''-------------'' @ NL # ''b.txt''), Out RawText (NL # ''Bad.''),
       Call (DetectLanguage [''Bad.'']), Out Language (NL # ''Language: English''),
       Call (AnalyzeSentiment [''Bad.''] ''en''),
       Out Sentiment (NL # ''Sentiment: positive''),
       Out Scores ''Scores: Positive=0.88, Negative=0.09, Neutral=0.03'',
       Call (ExtractKeyPhrases [''Bad.''] ''en''),
       Call (RecognizeEntities [''Bad.''] ''en'')], Inl network_error)"
  by (simp add: run_defs world_defs scores_line_mostly_positive)

lemma try_block_failing_world:
  "try_block failing_world =
     (fst (process_file stub_world () ''a.txt'') @ fst (process_file failing_world () ''b.txt''),
      Inl network_error)"
  by (simp add: try_block_startup startup_failing_world pass_a_failing_world pass_a_stub_world
      pass_b_failing_world bind_def)



lemma pass_a_nan_world:
  "process_file nan_world () ''a.txt'' =
     ([Out Header (NL # ''-------------'' @ NL # ''a.txt''), Out RawText (NL # ''Good hotel.''),
       Call (DetectLanguage [''Good hotel.'']), Out Language (NL # ''Language: English''),
       Call (AnalyzeSentiment [''Good hotel.''] ''en''),
       Out Sentiment (NL # ''Sentiment: mixed''),
       Out Scores ''Scores: Positive=nan, Negative=inf, Neutral=-inf'',
       Call (ExtractKeyPhrases [''Good hotel.''] ''en''),
       Out KeyPhrasesHeader (NL # ''Key Phrases:''), Out KeyPhrase (TAB # ''hotel''),
       Call (RecognizeEntities [''Good hotel.''] ''en''),
       Out EntitiesHeader (NL # ''Entities:''), Out Entity (TAB # ''hotel (Location)''),
       Call (RecognizeLinkedEntities [''Good hotel.''] ''en''),
       Out LinkedEntitiesHeader (NL # ''Linked Entities:''),
       Out LinkedEntity (TAB # ''Hotel: https://w/Hotel'')], Inr ())"
  by (simp add: run_defs world_defs scores_line_not_finite)

lemma pass_first_named_world:
  "process_file named_world () ''first-review.txt'' =
     ([Out Header (NL # ''-------------'' @ NL # ''first-review.txt''),
       Out RawText (NL # ''Good hotel.''),
       Call (DetectLanguage [''Good hotel.'']), Out Language (NL # ''Language: English''),
       Call (AnalyzeSentiment [''Good hotel.''] ''en''),
       Out Sentiment (NL # ''Sentiment: positive''),
       Out Scores ''Scores: Positive=0.88, Negative=0.09, Neutral=0.03'',
       Call (ExtractKeyPhrases [''Good hotel.''] ''en''),
       Out KeyPhrasesHeader (NL # ''Key Phrases:''), Out KeyPhrase (TAB # ''hotel''),
       Call (RecognizeEntities [''Good hotel.''] ''en''),
       Out EntitiesHeader (NL # ''Entities:''), Out Entity (TAB # ''hotel (Location)''),
       Call (RecognizeLinkedEntities [''Good hotel.''] ''en''),
       Out LinkedEntitiesHeader (NL # ''Linked Entities:''),
       Out LinkedEntity (TAB # ''Hotel: https://w/Hotel'')], Inr ())"
  by (simp add: run_defs world_defs scores_line_mostly_positive)

lemma pass_b_named_world:
  "process_file named_world () ''b.txt'' = process_file stub_world () ''b.txt''"
  by (simp add: run_defs world_defs)







subsection \<open>The claims on the stub worlds\<close>



theorem non_finite_scores_not_two_places:
  "snd (process_file nan_world () ''a.txt'') = Inr () \<and>
   outputs (fst (process_file nan_world () ''a.txt'')) ! 4 =
     Out Scores ''Scores: Positive=nan, Negative=inf, Neutral=-inf'' \<and>
   \<not> two_decimal_digits ''nan'' \<and> \<not> two_decimal_digits ''inf'' \<and>
   \<not> two_decimal_digits ''-inf''"
proof -
  have "\<not> two_decimal_digits ''nan'' \<and> \<not> two_decimal_digits ''inf'' \<and>
      \<not> two_decimal_digits ''-inf''"
    by code_simp
  then show ?thesis
    by (simp add: pass_a_nan_world outputs_def)
qed

theorem process_file_output_order_witness:
  "snd (process_file stub_world () ''a.txt'') = Inr () \<and>
   (\<exists>pos neg neu.
      two_places (Finite False 7 (- 3)) pos \<and> two_places (Finite False 3 (- 5)) neg \<and>
      two_places (Finite False 2 (- 6)) neu \<and>
      outputs (fst (process_file stub_world () ''a.txt'')) =
        [Out Header (NL # ''-------------'' @ NL # ''a.txt''), Out RawText (NL # ''Good hotel.''),
         Out Language (NL # ''Language: English''), Out Sentiment (NL # ''Sentiment: positive''),
         Out Scores (''Scores: Positive='' @ pos @ '', Negative='' @ neg @ '', Neutral='' @ neu),
         Out KeyPhrasesHeader (NL # ''Key Phrases:''), Out KeyPhrase (TAB # ''hotel''),
         Out EntitiesHeader (NL # ''Entities:''), Out Entity (TAB # ''hotel (Location)''),
         Out LinkedEntitiesHeader (NL # ''Linked Entities:''),
         Out LinkedEntity (TAB # ''Hotel: https://w/Hotel'')]) \<and>
   outputs (fst (process_file stub_world () ''a.txt'')) ! 4 =
     Out Scores ''Scores: Positive=0.88, Negative=0.09, Neutral=0.03''"
proof -
  have h: "snd (process_file stub_world () ''a.txt'') = Inr ()"
    by (simp add: pass_a_stub_world)
  from process_file_output_order[OF h] obtain tx d s p e l rs1 rs2 rs3 rs4 rs5 pos neg neu where
    w: "open_read stub_world (path_join reviews_folder ''a.txt'') = Inr tx"
      "detect_language stub_world () [tx] = Inr (Result d # rs1)"
      "analyze_sentiment stub_world () [tx] (iso6391_name (primary_language d)) =
        Inr (Result s # rs2)"
      "extract_key_phrases stub_world () [tx] (iso6391_name (primary_language d)) =
        Inr (Result p # rs3)"
      "recognize_entities stub_world () [tx] (iso6391_name (primary_language d)) =
        Inr (Result e # rs4)"
      "recognize_linked_entities stub_world () [tx] (iso6391_name (primary_language d)) =
        Inr (Result l # rs5)"
    and tp: "two_places (positive (confidence_scores s)) pos"
      "two_places (negative (confidence_scores s)) neg"
      "two_places (neutral (confidence_scores s)) neu"
    and out: "outputs (fst (process_file stub_world () ''a.txt'')) =
      [Out Header (NL # ''-------------'' @ NL # ''a.txt''), Out RawText (NL # tx),
       Out Language (NL # ''Language: '' @ name (primary_language d)),
       Out Sentiment (NL # ''Sentiment: '' @ sentiment s),
       Out Scores (''Scores: Positive='' @ pos @ '', Negative='' @ neg @ '', Neutral='' @ neu)] @
      key_phrases_section (key_phrases p) @
      entities_section (entities e) @
      linked_entities_section (linked_entities l)"
    by blast
  from w(1) have tx: "tx = ''Good hotel.''"
    by (simp add: stub_world_def path_join_def reviews_folder_def)
  from w(2) have d: "d = english" by (simp add: stub_world_def)
  from w(3) have s: "s = mostly_positive" by (simp add: stub_world_def)
  from w(4) tx have p: "key_phrases p = [''hotel'']" by (auto simp: stub_world_def)
  from w(5) tx have e: "entities e = [\<lparr>entity_text = ''hotel'', category = ''Location''\<rparr>]"
    by (auto simp: stub_world_def)
  from w(6) tx have l:
    "linked_entities l = [\<lparr>linked_name = ''Hotel'', url = ''https://w/Hotel''\<rparr>]"
    by (auto simp: stub_world_def)
  from tp have tp': "two_places (Finite False 7 (- 3)) pos"
    "two_places (Finite False 3 (- 5)) neg" "two_places (Finite False 2 (- 6)) neu"
    unfolding s by (simp_all add: mostly_positive_def)
  have out': "outputs (fst (process_file stub_world () ''a.txt'')) =
     [Out Header (NL # ''-------------'' @ NL # ''a.txt''), Out RawText (NL # ''Good hotel.''),
      Out Language (NL # ''Language: English''), Out Sentiment (NL # ''Sentiment: positive''),
      Out Scores (''Scores: Positive='' @ pos @ '', Negative='' @ neg @ '', Neutral='' @ neu),
      Out KeyPhrasesHeader (NL # ''Key Phrases:''), Out KeyPhrase (TAB # ''hotel''),
      Out EntitiesHeader (NL # ''Entities:''), Out Entity (TAB # ''hotel (Location)''),
      Out LinkedEntitiesHeader (NL # ''Linked Entities:''),
      Out LinkedEntity (TAB # ''Hotel: https://w/Hotel'')]"
    unfolding out tx d s p e l
    by (simp add: sections english_def mostly_positive_def entity_line_def
        linked_entity_line_def)
  have sc: "outputs (fst (process_file stub_world () ''a.txt'')) ! 4 =
     Out Scores ''Scores: Positive=0.88, Negative=0.09, Neutral=0.03''"
    by (simp add: pass_a_stub_world outputs_def)
  from h tp' out' sc show ?thesis by blast
qed

theorem headers_in_enumeration_order_witness:
  "startup named_world = Inr ((), [''first-review.txt'', ''b.txt'']) \<and>
   snd (process_file named_world () ''first-review.txt'') = Inr () \<and>
   snd (process_file named_world () ''b.txt'') = Inr () \<and>
   headers (fst (process_file named_world () ''first-review.txt'')) =
     [Out Header (NL # ''-------------'' @ NL # ''first-review.txt'')] \<and>
   headers (fst (main named_world)) =
     [Out Header (NL # ''-------------'' @ NL # ''first-review.txt''),
      Out Header (NL # ''-------------'' @ NL # ''b.txt'')] \<and>
   startup failing_world = Inr ((), [''a.txt''] @ ''b.txt'' # [''c.txt'']) \<and>
   snd (process_file failing_world () ''a.txt'') = Inr () \<and>
   snd (process_file failing_world () ''b.txt'') = Inl network_error \<and>
   headers (fst (main failing_world)) =
     [Out Header (NL # ''-------------'' @ NL # ''a.txt''),
      Out Header (NL # ''-------------'' @ NL # ''b.txt'')]"
proof -
  have h: "startup named_world = Inr ((), [''first-review.txt'', ''b.txt''])"
    by (rule startup_named_world)
  have a: "snd (process_file named_world () ''first-review.txt'') = Inr ()"
    by (simp add: pass_first_named_world)
  have b: "snd (process_file named_world () ''b.txt'') = Inr ()"
    by (simp add: pass_b_named_world pass_b_stub_world)
  from a b have ok: "\<forall>f\<in>set [''first-review.txt'', ''b.txt''].
      snd (process_file named_world () f) = Inr ()"
    by simp
  note n = headers_in_enumeration_order[OF h]
  from n a have one: "headers (fst (process_file named_world () ''first-review.txt'')) =
     [Out Header (NL # ''-------------'' @ NL # ''first-review.txt'')]"
    by blast
  from n ok have "headers (fst (main named_world)) =
      map (\<lambda>f. Out Header (NL # ''-------------'' @ NL # f)) [''first-review.txt'', ''b.txt'']"
    by blast
  then have run: "headers (fst (main named_world)) =
     [Out Header (NL # ''-------------'' @ NL # ''first-review.txt''),
      Out Header (NL # ''-------------'' @ NL # ''b.txt'')]"
    by simp
  have g: "startup failing_world = Inr ((), [''a.txt''] @ ''b.txt'' # [''c.txt''])"
    by (simp add: startup_failing_world)
  have fa: "snd (process_file failing_world () ''a.txt'') = Inr ()"
    by (simp add: pass_a_failing_world pass_a_stub_world)
  have fb: "snd (process_file failing_world () ''b.txt'') = Inl network_error"
    by (simp add: pass_b_failing_world)
  from fa have pre: "\<forall>g\<in>set [''a.txt'']. snd (process_file failing_world () g) = Inr ()"
    by simp
  from headers_in_enumeration_order[OF g] pre fb have "headers (fst (main failing_world)) =
      map (\<lambda>g. Out Header (NL # ''-------------'' @ NL # g)) [''a.txt''] @
      headers (fst (process_file failing_world () ''b.txt''))"
    by blast
  then have stop: "headers (fst (main failing_world)) =
     [Out Header (NL # ''-------------'' @ NL # ''a.txt''),
      Out Header (NL # ''-------------'' @ NL # ''b.txt'')]"
    by (simp add: pass_b_failing_world headers_def)
  from h a b one run g fa fb stop show ?thesis by blast
qed

theorem failing_pass_fewer_calls:
  "startup failing_world = Inr ((), [''a.txt'', ''b.txt'', ''c.txt'']) \<and>
   length (calls (fst (process_file failing_world () ''b.txt''))) = 4 \<and>
   length (calls (fst (main failing_world))) = 9"
proof -
  have "stdout_write failing_world (str network_error) = None"
    by (simp add: world_defs)
  then have "main failing_world =
      (fst (try_block failing_world) @ [Out Error (str network_error)], Returned)"
    by (simp add: main_eq try_block_failing_world network_error_def)
  then show ?thesis
    by (simp add: startup_failing_world try_block_failing_world pass_b_failing_world
        pass_a_stub_world calls_def)
qed

theorem remote_call_sequence_witness:
  "startup stub_world = Inr ((), [''a.txt'', ''b.txt'', ''c.txt'']) \<and>
   snd (process_file stub_world () ''a.txt'') = Inr () \<and>
   snd (process_file stub_world () ''b.txt'') = Inr () \<and>
   snd (process_file stub_world () ''c.txt'') = Inr () \<and>
   calls (fst (process_file stub_world () ''a.txt'')) =
     [Call (DetectLanguage [''Good hotel.'']), Call (AnalyzeSentiment [''Good hotel.''] ''en''),
      Call (ExtractKeyPhrases [''Good hotel.''] ''en''),
      Call (RecognizeEntities [''Good hotel.''] ''en''),
      Call (RecognizeLinkedEntities [''Good hotel.''] ''en'')] \<and>
   calls (fst (main stub_world)) =
     [Call (DetectLanguage [''Good hotel.'']), Call (AnalyzeSentiment [''Good hotel.''] ''en''),
      Call (ExtractKeyPhrases [''Good hotel.''] ''en''),
      Call (RecognizeEntities [''Good hotel.''] ''en''),
      Call (RecognizeLinkedEntities [''Good hotel.''] ''en''),
      Call (DetectLanguage [''Bad.'']), Call (AnalyzeSentiment [''Bad.''] ''en''),
      Call (ExtractKeyPhrases [''Bad.''] ''en''), Call (RecognizeEntities [''Bad.''] ''en''),
      Call (RecognizeLinkedEntities [''Bad.''] ''en''),
      Call (DetectLanguage [''Fine.'']), Call (AnalyzeSentiment [''Fine.''] ''en''),
      Call (ExtractKeyPhrases [''Fine.''] ''en''), Call (RecognizeEntities [''Fine.''] ''en''),
      Call (RecognizeLinkedEntities [''Fine.''] ''en'')] \<and>
   startup failing_world = Inr ((), [''a.txt''] @ ''b.txt'' # [''c.txt'']) \<and>
   snd (process_file failing_world () ''a.txt'') = Inr () \<and>
   snd (process_file failing_world () ''b.txt'') = Inl network_error \<and>
   (\<exists>n. n \<le> 5 \<and>
      calls (fst (main failing_world)) =
        [Call (DetectLanguage [''Good hotel.'']), Call (AnalyzeSentiment [''Good hotel.''] ''en''),
         Call (ExtractKeyPhrases [''Good hotel.''] ''en''),
         Call (RecognizeEntities [''Good hotel.''] ''en''),
         Call (RecognizeLinkedEntities [''Good hotel.''] ''en'')] @
        take n
         [Call (DetectLanguage [''Bad.'']), Call (AnalyzeSentiment [''Bad.''] ''en''),
          Call (ExtractKeyPhrases [''Bad.''] ''en''), Call (RecognizeEntities [''Bad.''] ''en''),
          Call (RecognizeLinkedEntities [''Bad.''] ''en'')])"
proof -
  have h: "startup stub_world = Inr ((), [''a.txt'', ''b.txt'', ''c.txt''])"
    by (rule startup_stub_world)
  have a: "snd (process_file stub_world () ''a.txt'') = Inr ()"
    by (simp add: pass_a_stub_world)
  have b: "snd (process_file stub_world () ''b.txt'') = Inr ()"
    by (simp add: pass_b_stub_world)
  have c: "snd (process_file stub_world () ''c.txt'') = Inr ()"
    by (simp add: pass_c_stub_world)
  from a b c have ok: "\<forall>f\<in>set [''a.txt'', ''b.txt'', ''c.txt''].
      snd (process_file stub_world () f) = Inr ()"
    by simp
  have ft: "file_text stub_world ''a.txt'' = ''Good hotel.''"
    "file_text stub_world ''b.txt'' = ''Bad.''" "file_text stub_world ''c.txt'' = ''Fine.''"
    by (simp_all add: file_text_def stub_world_def path_join_def reviews_folder_def)
  have dc: "detected_code stub_world () f = ''en''" for f
    by (simp add: detected_code_def stub_world_def english_def)
  note n = remote_call_sequence[OF h]
  from n a have "calls (fst (process_file stub_world () ''a.txt'')) =
      five_calls (file_text stub_world ''a.txt'') (detected_code stub_world () ''a.txt'')"
    by blast
  then have one: "calls (fst (process_file stub_world () ''a.txt'')) =
     [Call (DetectLanguage [''Good hotel.'']), Call (AnalyzeSentiment [''Good hotel.''] ''en''),
      Call (ExtractKeyPhrases [''Good hotel.''] ''en''),
      Call (RecognizeEntities [''Good hotel.''] ''en''),
      Call (RecognizeLinkedEntities [''Good hotel.''] ''en'')]"
    by (simp add: ft dc five_calls_def)
  from n ok have "calls (fst (main stub_world)) =
      concat (map (\<lambda>f. five_calls (file_text stub_world f) (detected_code stub_world () f))
        [''a.txt'', ''b.txt'', ''c.txt''])"
    by blast
  then have run: "calls (fst (main stub_world)) =
     [Call (DetectLanguage [''Good hotel.'']), Call (AnalyzeSentiment [''Good hotel.''] ''en''),
      Call (ExtractKeyPhrases [''Good hotel.''] ''en''),
      Call (RecognizeEntities [''Good hotel.''] ''en''),
      Call (RecognizeLinkedEntities [''Good hotel.''] ''en''),
      Call (DetectLanguage [''Bad.'']), Call (AnalyzeSentiment [''Bad.''] ''en''),
      Call (ExtractKeyPhrases [''Bad.''] ''en''), Call (RecognizeEntities [''Bad.''] ''en''),
      Call (RecognizeLinkedEntities [''Bad.''] ''en''),
      Call (DetectLanguage [''Fine.'']), Call (AnalyzeSentiment [''Fine.''] ''en''),
      Call (ExtractKeyPhrases [''Fine.''] ''en''), Call (RecognizeEntities [''Fine.''] ''en''),
      Call (RecognizeLinkedEntities [''Fine.''] ''en'')]"
    by (simp add: ft dc five_calls_def)
  have g: "startup failing_world = Inr ((), [''a.txt''] @ ''b.txt'' # [''c.txt''])"
    by (simp add: startup_failing_world)
  have fa: "snd (process_file failing_world () ''a.txt'') = Inr ()"
    by (simp add: pass_a_failing_world pass_a_stub_world)
  have fb: "snd (process_file failing_world () ''b.txt'') = Inl network_error"
    by (simp add: pass_b_failing_world)
  from fa have pre: "\<forall>g\<in>set [''a.txt'']. snd (process_file failing_world () g) = Inr ()"
    by simp
  have fft: "file_text failing_world ''a.txt'' = ''Good hotel.''"
    "file_text failing_world ''b.txt'' = ''Bad.''"
    by (simp_all add: file_text_def world_defs path_join_def reviews_folder_def)
  have fdc: "detected_code failing_world () f = ''en''" for f
    by (simp add: detected_code_def world_defs english_def)
  from remote_call_sequence[OF g] pre fb have "\<exists>n. n \<le> 5 \<and>
      calls (fst (main failing_world)) =
        concat (map (\<lambda>g. five_calls (file_text failing_world g) (detected_code failing_world () g))
          [''a.txt'']) @
        take n (five_calls (file_text failing_world ''b.txt'')
          (detected_code failing_world () ''b.txt''))"
    by blast
  then have stop: "\<exists>n. n \<le> 5 \<and>
      calls (fst (main failing_world)) =
        [Call (DetectLanguage [''Good hotel.'']), Call (AnalyzeSentiment [''Good hotel.''] ''en''),
         Call (ExtractKeyPhrases [''Good hotel.''] ''en''),
         Call (RecognizeEntities [''Good hotel.''] ''en''),
         Call (RecognizeLinkedEntities [''Good hotel.''] ''en'')] @
        take n
         [Call (DetectLanguage [''Bad.'']), Call (AnalyzeSentiment [''Bad.''] ''en''),
          Call (ExtractKeyPhrases [''Bad.''] ''en''), Call (RecognizeEntities [''Bad.''] ''en''),
          Call (RecognizeLinkedEntities [''Bad.''] ''en'')]"
    by (simp add: fft fdc five_calls_def)
  from h a b c one run g fa fb stop show ?thesis by blast
qed



theorem no_key_phrases_section_when_empty_witness:
  "open_read stub_world ''reviews/b.txt'' = Inr ''Bad.'' \<and>
   extract_key_phrases stub_world () [''Bad.''] ''en'' = Inr [Result \<lparr>key_phrases = []\<rparr>] \<and>
   snd (process_file stub_world () ''b.txt'') = Inr () \<and>
   Some KeyPhrasesHeader \<notin> set (map site_of (fst (process_file stub_world () ''b.txt''))) \<and>
   Some KeyPhrase \<notin> set (map site_of (fst (process_file stub_world () ''b.txt'')))"
proof -
  have h1: "open_read stub_world (path_join reviews_folder ''b.txt'') = Inr ''Bad.''"
    by (simp add: stub_world_def path_join_def reviews_folder_def)
  have h2: "detect_language stub_world () [''Bad.''] = Inr (Result english # [])"
    by (simp add: stub_world_def)
  have h3: "extract_key_phrases stub_world () [''Bad.''] (iso6391_name (primary_language english)) =
      Inr (Result \<lparr>key_phrases = []\<rparr> # [])"
    by (simp add: stub_world_def)
  have h4: "key_phrases \<lparr>key_phrases = []\<rparr> = []"
    by simp
  have ok: "snd (process_file stub_world () ''b.txt'') = Inr ()"
    by (simp add: pass_b_stub_world)
  from no_key_phrases_section_when_empty[OF h1 h2 h3 h4] h1 h3 ok show ?thesis
    by (simp add: stub_world_def english_def)
qed

theorem format_2f_NaN_not_decimal:
  "format_2f NaN = ''nan'' \<and> \<not> two_decimal_digits (format_2f NaN) \<and>
   scores_line \<lparr>positive = NaN, negative = Finite False 0 0, neutral = Finite False 0 0\<rparr> =
     ''Scores: Positive=nan, Negative=0.00, Neutral=0.00''"
  by code_simp

theorem scores_two_decimal_digits_witness:
  "is_finite (Finite False 7 (- 3)) \<and> in_unit_interval (Finite False 7 (- 3)) \<and>
   format_2f (Finite False 7 (- 3)) = ''0.88'' \<and> two_decimal_digits ''0.88'' \<and>
   0 \<le> decimal_value ''0.88'' \<and> decimal_value ''0.88'' \<le> 1"
proof -
  have f: "format_2f (Finite False 7 (- 3)) = ''0.88''"
    by code_simp
  have i: "in_unit_interval (Finite False 7 (- 3))"
    by (simp add: in_unit_interval_def)
  from scores_two_decimal_digits[of "Finite False 7 (- 3)"] i f show ?thesis
    by simp
qed





theorem header_and_text_before_first_call_witness:
  "Call (RecognizeEntities [''Bad.''] ''en'') \<in> set (fst (process_file failing_world () ''b.txt'')) \<and>
   snd (process_file failing_world () ''b.txt'') = Inl network_error \<and>
   take 3 (fst (process_file failing_world () ''b.txt'')) =
     [Out Header (NL # ''-------------'' @ NL # ''b.txt''), Out RawText (NL # ''Bad.''),
      Call (DetectLanguage [''Bad.''])]"
proof -
  have h: "Call (RecognizeEntities [''Bad.''] ''en'') \<in>
      set (fst (process_file failing_world () ''b.txt''))"
    by (simp add: pass_b_failing_world)
  from header_and_text_before_first_call[OF h] obtain tx rest where
    w: "open_read failing_world (path_join reviews_folder ''b.txt'') = Inr tx"
    and t: "fst (process_file failing_world () ''b.txt'') =
      Out Header (header_line ''b.txt'') # Out RawText (NL # tx) # Call (DetectLanguage [tx]) #
      rest"
    by blast
  from w have tx: "tx = ''Bad.''"
    by (simp add: world_defs path_join_def reviews_folder_def)
  have "take 3 (fst (process_file failing_world () ''b.txt'')) =
     [Out Header (NL # ''-------------'' @ NL # ''b.txt''), Out RawText (NL # ''Bad.''),
      Call (DetectLanguage [''Bad.''])]"
    unfolding t tx by (simp add: header_line_def)
  moreover have "snd (process_file failing_world () ''b.txt'') = Inl network_error"
    by (simp add: pass_b_failing_world)
  ultimately show ?thesis using h by blast
qed

end
